theory Spec2Isabelle
  imports Main "HOL-Library.Word" "HOL-Library.Char_ord" "HOL-Library.List_Lexorder"
begin

unbundle bit_operations_syntax

section \<open>Go runtime values used by the registry facade\<close>

text \<open>A Go \<open>error\<close> value, identified by its message.\<close>

datatype error = Err string

text \<open>
  \<open>io/fs.FileMode\<close> is a \<open>uint32\<close>; the mode bits are those of the Go standard
  library (\<open>ModeDir = 1 << 31\<close>, counting down).
\<close>

type_synonym FileMode = "32 word"

definition ModeDir :: FileMode where "ModeDir = push_bit 31 1"
definition ModeSymlink :: FileMode where "ModeSymlink = push_bit 27 1"
definition ModeDevice :: FileMode where "ModeDevice = push_bit 26 1"
definition ModeNamedPipe :: FileMode where "ModeNamedPipe = push_bit 25 1"
definition ModeSocket :: FileMode where "ModeSocket = push_bit 24 1"
definition ModeCharDevice :: FileMode where "ModeCharDevice = push_bit 21 1"
definition ModeIrregular :: FileMode where "ModeIrregular = push_bit 19 1"

definition ModeType :: FileMode where
  "ModeType = ModeDir OR ModeSymlink OR ModeNamedPipe OR ModeSocket OR ModeDevice
     OR ModeCharDevice OR ModeIrregular"

text \<open>
  A directory entry as \<open>os.ReadDir\<close> returns it: its name and its file mode.
  \<open>DirEntry.Type()\<close> is the mode restricted to the type bits.
\<close>

record DirEntry =
  Name :: string
  Mode :: FileMode

definition Type :: "DirEntry \<Rightarrow> FileMode" where
  "Type f = Mode f AND ModeType"

text \<open>A \<open>net.Listener\<close>: either a \<open>*net.TCPListener\<close> or some other implementation.\<close>

datatype Listener = TCPListener nat | OtherListener nat

text \<open>
  A \<open>context.Context\<close>, reduced to its time budget in nanoseconds
  (\<open>None\<close>: no deadline). \<open>time.Second\<close> is \<open>1000000000\<close> nanoseconds.
\<close>

record Context =
  Timeout :: "nat option"

definition Background :: Context where
  "Background = \<lparr>Timeout = None\<rparr>"

definition Second :: nat where
  "Second = 1000000000"

definition WithTimeout :: "Context \<Rightarrow> nat \<Rightarrow> Context" where
  "WithTimeout parent d =
     (case Timeout parent of
        None \<Rightarrow> \<lparr>Timeout = Some d\<rparr>
      | Some p \<Rightarrow> \<lparr>Timeout = Some (min p d)\<rparr>)"

subsection \<open>Formatting and paths\<close>

text \<open>\<open>fmt.Sprintf("%d", n)\<close>: the decimal digits of an integer, with a sign when negative.\<close>

definition digit_char :: "nat \<Rightarrow> char" where
  "digit_char d = char_of (48 + d)"

fun digits :: "nat \<Rightarrow> string" where
  "digits n = (if n < 10 then [digit_char n] else digits (n div 10) @ [digit_char (n mod 10)])"

declare digits.simps [simp del]

definition sprint_d :: "int \<Rightarrow> string" where
  "sprint_d i = (if i < 0 then CHR ''-'' # digits (nat (- i)) else digits (nat i))"

text \<open>
  \<open>path/filepath\<close> on Unix. \<open>split_path\<close> cuts a path at every separator;
  \<open>clean_elems\<close> is the element-wise effect of \<open>filepath.Clean\<close>: empty and
  \<open>.\<close> elements vanish, \<open>..\<close> removes the element before it, is dropped at the
  root and is kept at the front of a relative path. The list of kept elements is held
  in reverse.
\<close>

fun split_path :: "string \<Rightarrow> string list" where
  "split_path [] = [[]]"
| "split_path (c # cs) =
     (if c = CHR ''/'' then [] # split_path cs
      else (case split_path cs of [] \<Rightarrow> [[c]] | e # es \<Rightarrow> (c # e) # es))"

definition clean_step :: "bool \<Rightarrow> string \<Rightarrow> string list \<Rightarrow> string list" where
  "clean_step rooted e out =
     (if e = [] \<or> e = ''.'' then out
      else if e = ''..'' then
        (case out of
           [] \<Rightarrow> (if rooted then [] else [''..''])
         | t # ts \<Rightarrow> (if t = ''..'' then ''..'' # out else ts))
      else e # out)"

definition clean_elems :: "bool \<Rightarrow> string list \<Rightarrow> string list" where
  "clean_elems rooted es = rev (fold (clean_step rooted) es [])"

fun join_elems :: "string list \<Rightarrow> string" where
  "join_elems [] = []"
| "join_elems [e] = e"
| "join_elems (e # es) = e @ CHR ''/'' # join_elems es"

definition is_rooted :: "string \<Rightarrow> bool" where
  "is_rooted path = (case path of [] \<Rightarrow> False | c # _ \<Rightarrow> c = CHR ''/'')"

definition filepath_Clean :: "string \<Rightarrow> string" where
  "filepath_Clean path =
     (let rooted = is_rooted path;
          es = clean_elems rooted (split_path path)
      in if rooted then CHR ''/'' # join_elems es
         else if es = [] then ''.'' else join_elems es)"

text \<open>
  \<open>filepath.Join\<close> of two elements: leading empty elements are ignored, the rest is
  joined with the separator and cleaned; the result is empty when both are empty.
\<close>

definition filepath_Join :: "string \<Rightarrow> string \<Rightarrow> string" where
  "filepath_Join a b =
     (if a \<noteq> [] then filepath_Clean (a @ CHR ''/'' # b)
      else if b \<noteq> [] then filepath_Clean b
      else [])"

section \<open>HTTP requests, responses and handlers\<close>

text \<open>
  \<open>net/http.Header\<close>: a map from canonical header names to their values.
  \<open>CanonicalMIMEHeaderKey\<close> upper-cases the first letter and every letter after a
  hyphen and lower-cases the others, and leaves a key with a byte that is not a header
  token byte unchanged.
\<close>

type_synonym Header = "string \<rightharpoonup> string list"

definition is_upper :: "char \<Rightarrow> bool" where
  "is_upper c = (65 \<le> (of_char c :: nat) \<and> (of_char c :: nat) \<le> 90)"

definition is_lower :: "char \<Rightarrow> bool" where
  "is_lower c = (97 \<le> (of_char c :: nat) \<and> (of_char c :: nat) \<le> 122)"

definition is_digit :: "char \<Rightarrow> bool" where
  "is_digit c = (48 \<le> (of_char c :: nat) \<and> (of_char c :: nat) \<le> 57)"

definition to_upper :: "char \<Rightarrow> char" where
  "to_upper c = (if is_lower c then char_of ((of_char c :: nat) - 32) else c)"

definition to_lower :: "char \<Rightarrow> char" where
  "to_lower c = (if is_upper c then char_of ((of_char c :: nat) + 32) else c)"

definition validHeaderFieldByte :: "char \<Rightarrow> bool" where
  "validHeaderFieldByte c =
     (is_upper c \<or> is_lower c \<or> is_digit c \<or> c \<in> set ''!#$%&*+-.^_`|~'' \<or> c = CHR 0x27)"

fun canon_bytes :: "bool \<Rightarrow> string \<Rightarrow> string" where
  "canon_bytes upper [] = []"
| "canon_bytes upper (c # cs) =
     (let c' = (if upper then to_upper c else to_lower c)
      in c' # canon_bytes (c' = CHR ''-'') cs)"

definition CanonicalMIMEHeaderKey :: "string \<Rightarrow> string" where
  "CanonicalMIMEHeaderKey s = (if list_all validHeaderFieldByte s then canon_bytes True s else s)"

definition header_values :: "Header \<Rightarrow> string \<Rightarrow> string list" where
  "header_values h key = (case h key of None \<Rightarrow> [] | Some vs \<Rightarrow> vs)"

definition Header_Get :: "Header \<Rightarrow> string \<Rightarrow> string" where
  "Header_Get h key =
     (case header_values h (CanonicalMIMEHeaderKey key) of [] \<Rightarrow> [] | v # _ \<Rightarrow> v)"

definition Header_Set :: "Header \<Rightarrow> string \<Rightarrow> string \<Rightarrow> Header" where
  "Header_Set h key v = h(CanonicalMIMEHeaderKey key \<mapsto> [v])"

definition Header_Add :: "Header \<Rightarrow> string \<Rightarrow> string \<Rightarrow> Header" where
  "Header_Add h key v =
     h(CanonicalMIMEHeaderKey key \<mapsto> header_values h (CanonicalMIMEHeaderKey key) @ [v])"

definition Header_Del :: "Header \<Rightarrow> string \<Rightarrow> Header" where
  "Header_Del h key = h(CanonicalMIMEHeaderKey key := None)"

text \<open>
  An \<open>http.Request\<close> as a handler receives it: the method, the path and the raw query
  of its URL, the request URI as it was sent, the protocol version and the headers.
\<close>

record Request =
  Method :: string
  Path :: string
  RawQuery :: string
  RequestURI :: string
  ProtoMajor :: nat
  ProtoMinor :: nat
  req_Header :: Header

definition ProtoAtLeast :: "Request \<Rightarrow> nat \<Rightarrow> nat \<Rightarrow> bool" where
  "ProtoAtLeast r major minor =
     (major < ProtoMajor r \<or> (ProtoMajor r = major \<and> minor \<le> ProtoMinor r))"

text \<open>The number a string of decimal digits stands for.\<close>

definition decimal_value :: "string \<Rightarrow> nat" where
  "decimal_value ds = foldl (\<lambda>acc c. 10 * acc + ((of_char c :: nat) - 48)) 0 ds"

text \<open>
  The length that \<open>WriteHeader\<close> accepts from a \<open>Content-Length\<close> header:
  \<open>strconv.ParseInt(cl, 10, 64)\<close> without error and not negative.
\<close>

definition ParseLength :: "string \<Rightarrow> nat option" where
  "ParseLength cl =
     (let neg = (case cl of [] \<Rightarrow> False | c # _ \<Rightarrow> c = CHR ''-'');
          ds = (case cl of [] \<Rightarrow> [] | c # cs \<Rightarrow> if c = CHR ''+'' \<or> c = CHR ''-'' then cs else cl)
      in if ds = [] \<or> \<not> list_all is_digit ds then None
         else if neg then (if decimal_value ds = 0 then Some 0 else None)
         else if decimal_value ds < 2 ^ 63 then Some (decimal_value ds)
         else None)"

text \<open>
  The \<open>http.ResponseWriter\<close> of the server for one request. \<open>rw_Header\<close> is the map
  the handler writes to. The rest is what has gone out: the status and the headers as
  they were at the first \<open>WriteHeader\<close>, and the body. \<open>WriteHeader\<close> takes the
  declared content length from the header (and removes a header it cannot read); status
  codes below 200 are not used in \<open>registry.go\<close>. \<open>Write\<close> sends status 200 first
  when no status has gone out; its data is counted but does not go out for a status
  without a body, beyond the declared content length, or in answer to a \<open>HEAD\<close>
  request. When the handler returns without a status, the server sends 200.
\<close>

record ResponseWriter =
  rw_Method :: string
  rw_Header :: Header
  wroteHeader :: bool
  status :: nat
  sent_Header :: Header
  contentLength :: "nat option"
  written :: nat
  body :: string

definition new_ResponseWriter :: "Request \<Rightarrow> ResponseWriter" where
  "new_ResponseWriter r =
     \<lparr>rw_Method = Method r, rw_Header = Map.empty, wroteHeader = False, status = 0,
      sent_Header = Map.empty, contentLength = None, written = 0, body = []\<rparr>"

definition StatusOK :: nat where "StatusOK = 200"
definition StatusMovedPermanently :: nat where "StatusMovedPermanently = 301"
definition StatusBadRequest :: nat where "StatusBadRequest = 400"
definition StatusUnauthorized :: nat where "StatusUnauthorized = 401"
definition StatusNotFound :: nat where "StatusNotFound = 404"

definition WriteHeader :: "ResponseWriter \<Rightarrow> nat \<Rightarrow> ResponseWriter" where
  "WriteHeader w code =
     (if wroteHeader w then w
      else
        (let w' = w\<lparr>wroteHeader := True, status := code, sent_Header := rw_Header w\<rparr>;
             cl = (case header_values (rw_Header w) ''Content-Length'' of [] \<Rightarrow> [] | v # _ \<Rightarrow> v)
         in if cl = [] then w'
            else case ParseLength cl of
              Some v \<Rightarrow> w'\<lparr>contentLength := Some v\<rparr>
            | None \<Rightarrow> w'\<lparr>rw_Header := Header_Del (rw_Header w) ''Content-Length''\<rparr>))"

definition bodyAllowedForStatus :: "nat \<Rightarrow> bool" where
  "bodyAllowedForStatus code =
     (\<not> (100 \<le> code \<and> code \<le> 199) \<and> code \<noteq> 204 \<and> code \<noteq> 304)"

definition Write :: "ResponseWriter \<Rightarrow> string \<Rightarrow> ResponseWriter" where
  "Write w data =
     (let w' = WriteHeader w StatusOK
      in if data = [] then w'
         else if \<not> bodyAllowedForStatus (status w') then w'
         else
           (let w'' = w'\<lparr>written := written w' + length data\<rparr>
            in case contentLength w'' of
              Some n \<Rightarrow>
                (if n < written w'' then w''
                 else if rw_Method w'' = ''HEAD'' then w''
                 else w''\<lparr>body := body w'' @ data\<rparr>)
            | None \<Rightarrow>
                (if rw_Method w'' = ''HEAD'' then w''
                 else w''\<lparr>body := body w'' @ data\<rparr>)))"

definition finishRequest :: "ResponseWriter \<Rightarrow> ResponseWriter" where
  "finishRequest w = WriteHeader w StatusOK"

type_synonym Handler = "Request \<Rightarrow> ResponseWriter \<Rightarrow> ResponseWriter"

subsection \<open>The server and its \<open>ServeMux\<close>\<close>

text \<open>
  \<open>cleanPath\<close> of \<open>net/http\<close> (and of \<open>gorilla/mux\<close>): the canonical form of a URL
  path, rooted, cleaned as by \<open>path.Clean\<close>, with a trailing slash kept.
  \<open>path.Clean\<close> is \<open>filepath.Clean\<close> on Unix.
\<close>

definition cleanPath :: "string \<Rightarrow> string" where
  "cleanPath p =
     (if p = [] then ''/''
      else
        (let p' = (if hd p \<noteq> CHR ''/'' then CHR ''/'' # p else p);
             np = filepath_Clean p'
         in if last p' = CHR ''/'' \<and> np \<noteq> ''/'' then
              (if length p' = length np + 1 \<and> take (length np) p' = np then p'
               else np @ ''/'')
            else np))"

text \<open>\<open>http.Error\<close> with the text of \<open>http.NotFound\<close>.\<close>

definition http_NotFound :: Handler where
  "http_NotFound r w =
     (let w1 = w\<lparr>rw_Header := Header_Set (rw_Header w) ''Content-Type''
                    ''text/plain; charset=utf-8''\<rparr>;
          w2 = w1\<lparr>rw_Header := Header_Set (rw_Header w1) ''X-Content-Type-Options'' ''nosniff''\<rparr>
      in Write (WriteHeader w2 StatusNotFound) (''404 page not found'' @ [CHR 0x0A]))"

text \<open>
  \<open>http.Redirect\<close> with status 301 to a URL that is already an absolute path in its
  final form: the \<open>Location\<close> header, and for \<open>GET\<close> a short HTML body, unless the
  handler had set a content type.
\<close>

fun htmlEscape :: "string \<Rightarrow> string" where
  "htmlEscape [] = []"
| "htmlEscape (c # cs) =
     (if c = CHR ''&'' then ''&amp;''
      else if c = CHR ''<'' then ''&lt;''
      else if c = CHR ''>'' then ''&gt;''
      else if c = CHR 0x22 then ''&#34;''
      else if c = CHR 0x27 then ''&#39;''
      else [c]) @ htmlEscape cs"

definition http_Redirect :: "string \<Rightarrow> Handler" where
  "http_Redirect url r w =
     (let hadCT = (rw_Header w ''Content-Type'' \<noteq> None);
          w1 = w\<lparr>rw_Header := Header_Set (rw_Header w) ''Location'' url\<rparr>;
          w2 = (if \<not> hadCT \<and> (Method r = ''GET'' \<or> Method r = ''HEAD'')
                then w1\<lparr>rw_Header := Header_Set (rw_Header w1) ''Content-Type''
                                       ''text/html; charset=utf-8''\<rparr>
                else w1);
          w3 = WriteHeader w2 StatusMovedPermanently
      in if \<not> hadCT \<and> Method r = ''GET''
         then Write w3 (''<a href='' @ [CHR 0x22] @ htmlEscape url @ [CHR 0x22]
                        @ ''>Moved Permanently</a>.'' @ [CHR 0x0A, CHR 0x0A])
         else w3)"

text \<open>
  An \<open>http.ServeMux\<close> whose only pattern is \<open>/\<close>, as \<open>Serve\<close> sets it up (the
  \<open>ServeMux\<close> of the Go releases of the time of this code). A request for \<open>*\<close> is a
  bad request. A \<open>CONNECT\<close> request is not canonicalised: it goes to the handler when
  its path is rooted, and is not found otherwise. Any other request whose path is not in
  canonical form is redirected to the canonical path; \<open>redirect_url\<close> is the URL
  string that the library makes of the canonical path and the raw query. The rest goes
  to the handler.
\<close>

definition ServeMux_ServeHTTP :: "(string \<Rightarrow> string \<Rightarrow> string) \<Rightarrow> Handler \<Rightarrow> Handler" where
  "ServeMux_ServeHTTP redirect_url h r w =
     (if RequestURI r = ''*'' then
        WriteHeader
          (if ProtoAtLeast r 1 1
           then w\<lparr>rw_Header := Header_Set (rw_Header w) ''Connection'' ''close''\<rparr>
           else w)
          StatusBadRequest
      else if Method r = ''CONNECT'' then
        (if is_rooted (Path r) then h r w else http_NotFound r w)
      else if cleanPath (Path r) \<noteq> Path r then
        http_Redirect (redirect_url (cleanPath (Path r)) (RawQuery r)) r w
      else h r w)"

text \<open>
  What an \<open>http.Server\<close> does with a request, given its \<open>Handler\<close>: \<open>OPTIONS *\<close> is
  answered by the server itself, every other request by the handler, on a fresh
  response writer; a response without a status is completed with 200.
\<close>

definition globalOptionsHandler :: Handler where
  "globalOptionsHandler r w = w\<lparr>rw_Header := Header_Set (rw_Header w) ''Content-Length'' ''0''\<rparr>"

definition serverHandler :: "Handler \<Rightarrow> Handler" where
  "serverHandler h r w =
     (if RequestURI r = ''*'' \<and> Method r = ''OPTIONS'' then globalOptionsHandler r w
      else h r w)"

definition Server_serve :: "Handler \<Rightarrow> Request \<Rightarrow> ResponseWriter" where
  "Server_serve h r = finishRequest (serverHandler h r (new_ResponseWriter r))"

subsection \<open>Basic credentials\<close>

text \<open>
  \<open>Request.BasicAuth\<close> of the standard library: the \<open>Authorization\<close> header must
  start with \<open>Basic \<close> (in any letter case), the rest must be standard padded base64,
  and the decoded text is cut at its first colon.
\<close>

definition b64_val :: "char \<Rightarrow> nat option" where
  "b64_val c =
     (if is_upper c then Some ((of_char c :: nat) - 65)
      else if is_lower c then Some ((of_char c :: nat) - 71)
      else if is_digit c then Some ((of_char c :: nat) + 4)
      else if c = CHR ''+'' then Some 62
      else if c = CHR ''/'' then Some 63
      else None)"

definition byte_char :: "nat \<Rightarrow> char" where
  "byte_char n = char_of (n mod 256)"

fun b64_quanta :: "string \<Rightarrow> string option" where
  "b64_quanta [] = Some []"
| "b64_quanta [a, b, c, d] =
     (case (b64_val a, b64_val b) of
        (Some x, Some y) \<Rightarrow>
          (if c = CHR ''='' then
             (if d = CHR ''='' then Some [byte_char (x * 4 + y div 16)] else None)
           else case b64_val c of
             None \<Rightarrow> None
           | Some z \<Rightarrow>
               (if d = CHR ''='' then
                  Some [byte_char (x * 4 + y div 16), byte_char (y * 16 + z div 4)]
                else case b64_val d of
                  None \<Rightarrow> None
                | Some v \<Rightarrow>
                    Some [byte_char (x * 4 + y div 16), byte_char (y * 16 + z div 4),
                          byte_char (z * 64 + v)]))
      | _ \<Rightarrow> None)"
| "b64_quanta (a # b # c # d # rest) =
     (case (b64_val a, b64_val b, b64_val c, b64_val d) of
        (Some x, Some y, Some z, Some v) \<Rightarrow>
          (case b64_quanta rest of
             None \<Rightarrow> None
           | Some bs \<Rightarrow>
               Some (byte_char (x * 4 + y div 16) # byte_char (y * 16 + z div 4)
                     # byte_char (z * 64 + v) # bs))
      | _ \<Rightarrow> None)"
| "b64_quanta _ = None"

definition base64_DecodeString :: "string \<Rightarrow> string option" where
  "base64_DecodeString s = b64_quanta (filter (\<lambda>c. c \<noteq> CHR 0x0A \<and> c \<noteq> CHR 0x0D) s)"

fun strings_Cut :: "string \<Rightarrow> char \<Rightarrow> (string \<times> string) option" where
  "strings_Cut [] sep = None"
| "strings_Cut (c # cs) sep =
     (if c = sep then Some ([], cs)
      else case strings_Cut cs sep of
        None \<Rightarrow> None
      | Some (before, after) \<Rightarrow> Some (c # before, after))"

definition EqualFold :: "string \<Rightarrow> string \<Rightarrow> bool" where
  "EqualFold s t = (map to_lower s = map to_lower t)"

definition parseBasicAuth :: "string \<Rightarrow> (string \<times> string) option" where
  "parseBasicAuth auth =
     (if length auth < length ''Basic '' \<or> \<not> EqualFold (take (length ''Basic '') auth) ''Basic ''
      then None
      else case base64_DecodeString (drop (length ''Basic '') auth) of
        None \<Rightarrow> None
      | Some cs \<Rightarrow> strings_Cut cs CHR '':'')"

definition BasicAuth :: "Request \<Rightarrow> (string \<times> string) option" where
  "BasicAuth r =
     (let auth = Header_Get (req_Header r) ''Authorization''
      in if auth = [] then None else parseBasicAuth auth)"

subsection \<open>The handlers of \<open>registry.go\<close>\<close>

text \<open>
  \<open>requireAuthentication\<close>: without parseable Basic credentials the response is the
  challenge written by \<open>fail\<close>; otherwise the request goes to the wrapped handler.
\<close>

definition fail :: "ResponseWriter \<Rightarrow> ResponseWriter" where
  "fail w =
     WriteHeader (w\<lparr>rw_Header := Header_Add (rw_Header w) ''WWW-Authenticate'' ''Basic''\<rparr>)
       StatusUnauthorized"

definition requireAuthentication :: "Handler \<Rightarrow> Handler" where
  "requireAuthentication h r w =
     (case BasicAuth r of
        None \<Rightarrow> fail w
      | Some _ \<Rightarrow> h r w)"

text \<open>
  \<open>handleAPIBase\<close>: sets \<open>Content-Type\<close> and \<open>Content-Length\<close> and prints the empty
  JSON object.
\<close>

definition emptyJSON :: string where
  "emptyJSON = ''{}''"

definition handleAPIBase :: Handler where
  "handleAPIBase r w =
     (let w1 = w\<lparr>rw_Header := Header_Set (rw_Header w) ''Content-Type'' ''application/json''\<rparr>;
          w2 = w1\<lparr>rw_Header := Header_Set (rw_Header w1) ''Content-Length''
                     (sprint_d (int (length emptyJSON)))\<rparr>
      in Write w2 emptyJSON)"

text \<open>
  The router of \<open>distv2.RouterWithPrefix\<close>: the named routes of the registry API, each
  with an optional handler, and the handler for requests that match no route. Which
  route a request matches is decided by the routing library (\<open>route_match\<close>). As in
  \<open>gorilla/mux\<close>, a request whose path is not in canonical form is redirected to the
  canonical path before any matching (\<open>clean_redirect\<close> is the URL string that the
  library makes of the request's URL with the canonical path), and a matched route
  without a handler and an unmatched request without a \<open>NotFoundHandler\<close> get the
  standard 404 page.
\<close>

datatype RouteName =
  RouteNameBase | RouteNameManifest | RouteNameTags | RouteNameBlob
  | RouteNameBlobUpload | RouteNameBlobUploadChunk | RouteNameCatalog

record Router =
  route_match :: "Request \<Rightarrow> RouteName option"
  clean_redirect :: "Request \<Rightarrow> string \<Rightarrow> string"
  route_handler :: "RouteName \<Rightarrow> Handler option"
  NotFoundHandler :: "Handler option"

definition RouterWithPrefix ::
  "(string \<Rightarrow> Request \<Rightarrow> RouteName option) \<Rightarrow> (Request \<Rightarrow> string \<Rightarrow> string) \<Rightarrow> string \<Rightarrow> Router" where
  "RouterWithPrefix matcher redirect prefix =
     \<lparr>route_match = matcher prefix, clean_redirect = redirect,
      route_handler = (\<lambda>_. None), NotFoundHandler = None\<rparr>"

definition Router_ServeHTTP :: "Router \<Rightarrow> Handler" where
  "Router_ServeHTTP routes r w =
     (if cleanPath (Path r) \<noteq> Path r then
        WriteHeader
          (w\<lparr>rw_Header := Header_Set (rw_Header w) ''Location''
                             (clean_redirect routes r (cleanPath (Path r)))\<rparr>)
          StatusMovedPermanently
      else case route_match routes r of
        Some name \<Rightarrow>
          (case route_handler routes name of
             Some h \<Rightarrow> h r w
           | None \<Rightarrow> http_NotFound r w)
      | None \<Rightarrow>
          (case NotFoundHandler routes of
             Some h \<Rightarrow> h r w
           | None \<Rightarrow> http_NotFound r w))"

text \<open>
  \<open>registerHandler\<close>. The handlers of the manifest and blob routes,
  \<open>dispatcher(reg.handleManifest)\<close> and \<open>dispatcher(reg.handleBlob)\<close>, are built from
  methods defined outside \<open>registry.go\<close>; they are parameters here.
\<close>

record RouteHandlers =
  manifest_handler :: Handler
  blob_handler :: Handler

definition registerHandler :: "RouteHandlers \<Rightarrow> Router \<Rightarrow> Router" where
  "registerHandler hs routes =
     routes\<lparr>route_handler := (route_handler routes)
                (RouteNameBase := Some handleAPIBase,
                 RouteNameManifest := Some (manifest_handler hs),
                 RouteNameBlob := Some (blob_handler hs)),
             NotFoundHandler := Some handleAPIBase\<rparr>"

text \<open>
  The registry v2 error envelope \<open>{"errors":[{"code":...}]}\<close> asked for by the
  specification: a response is one when it is an error response whose body starts with
  the envelope carrying the given code.
\<close>

definition error_envelope_prefix :: "string \<Rightarrow> string" where
  "error_envelope_prefix code = ''{\"errors\":[{\"code\":\"'' @ code @ ''\"''"

definition is_error_envelope :: "string \<Rightarrow> ResponseWriter \<Rightarrow> bool" where
  "is_error_envelope code w =
     (400 \<le> status w \<and> take (length (error_envelope_prefix code)) (body w) = error_envelope_prefix code)"

section \<open>The world outside the registry\<close>

text \<open>
  Results of the operating system, of the standard library and of packages that
  \<open>registry.go\<close> calls: each field answers one external call. The constructors
  defined in other files of the package (\<open>NewFileLayerSource\<close> and the like) answer
  with their error, if any; what they build on success is a value of the datatypes
  further down that records their arguments. \<open>distv2_route_match\<close> is the route
  matching of the router library for a path prefix, \<open>dispatch_handlers\<close> are the
  handlers that the manifest and blob routes get, and \<open>servemux_redirect_url\<close> and
  \<open>router_redirect_url\<close> are the URL strings that \<open>net/http\<close> and the router
  library put into their redirects to a canonical path.
\<close>

record World =
  os_Getenv :: "string \<Rightarrow> string"
  os_ReadDir :: "string \<Rightarrow> DirEntry list \<times> error option"
  os_ReadFile :: "string \<Rightarrow> string \<times> error option"
  time_Now_Unix :: int
  net_Listen :: "string \<Rightarrow> string \<Rightarrow> error + Listener"
  handover_ReceiveHandover :: "Context \<Rightarrow> string \<Rightarrow> Listener option \<times> error option"
  local_NewStore :: "string \<Rightarrow> error option"
  newMetrics :: "error option"
  NewSpecMappedImageSource :: "error option"
  NewFileLayerSource :: "string \<Rightarrow> error option"
  NewStaticSourceFromImage :: "string \<Rightarrow> error option"
  NewContentLayerSource :: "error option"
  AppendCertsFromPEM :: "string \<Rightarrow> bool"
  tls_LoadX509KeyPair :: "string \<Rightarrow> string \<Rightarrow> error option"
  NewCachingSpecProvider :: "nat \<Rightarrow> error option"
  distv2_route_match :: "string \<Rightarrow> Request \<Rightarrow> RouteName option"
  dispatch_handlers :: RouteHandlers
  servemux_redirect_url :: "string \<Rightarrow> string \<Rightarrow> string"
  router_redirect_url :: "Request \<Rightarrow> string \<Rightarrow> string"

section \<open>Receiving a listener handover\<close>

text \<open>
  The loop of \<open>ReceiveHandover\<close> over the directory listing: an entry is skipped when
  \<open>f.Type()*os.ModeSocket == 0\<close>, otherwise its name replaces \<open>fn\<close> when it is
  greater. The product is a \<open>uint32\<close> product and wraps.
\<close>

definition latest_step :: "DirEntry \<Rightarrow> string \<Rightarrow> string" where
  "latest_step f fn =
     (if Type f * ModeSocket = 0 then fn
      else if fn < Name f then Name f
      else fn)"

definition latest_socket :: "DirEntry list \<Rightarrow> string" where
  "latest_socket fs = fold latest_step fs []"

definition ReceiveHandover :: "World \<Rightarrow> Context \<Rightarrow> string \<Rightarrow> Listener option \<times> error option" where
  "ReceiveHandover w ctx loc =
     (if loc = [] then (None, None)
      else case os_ReadDir w loc of
        (fs, Some err) \<Rightarrow> (None, Some err)
      | (fs, None) \<Rightarrow>
          (let fn = latest_socket fs
           in if fn = [] then (None, None)
              else handover_ReceiveHandover w ctx (filepath_Join loc fn)))"

text \<open>
  What the documentation of \<open>ReceiveHandover\<close> describes: the Unix sockets of the
  listing, and the greatest name among them.
\<close>

definition is_socket :: "DirEntry \<Rightarrow> bool" where
  "is_socket f = (Type f AND ModeSocket \<noteq> 0)"

definition socket_names :: "DirEntry list \<Rightarrow> string list" where
  "socket_names fs = map Name (filter is_socket fs)"

section \<open>Configuration and construction of the registry\<close>

record StaticLayerCfg =
  Ref :: string
  Type' :: string

record RemoteTLS =
  Authority :: string
  Certificate :: string
  PrivateKey :: string

record RemoteSpecProviderCfg =
  Addr :: string
  TLS :: "RemoteTLS option"

record ServerTLS =
  Certificate' :: string
  PrivateKey' :: string

record HandoverCfg =
  Enabled :: bool
  Sockets :: string

record Config =
  Port :: int
  Prefix :: string
  StaticLayer :: "StaticLayerCfg list"
  RemoteSpecProvider :: "RemoteSpecProviderCfg option"
  Store :: string
  RequireAuth :: bool
  TLS' :: "ServerTLS option"
  Handover :: HandoverCfg

text \<open>
  The parts a registry is built from. Each value records the arguments its constructor
  was called with: the store its root path, a file layer source its file, a static
  image source its reference, a key pair the files it was loaded from, the transport
  credentials their certificate and the contents of the CA file.
\<close>

datatype ResolverProvider = ResolverProvider nat

datatype ContentStore = LocalStore string

datatype LayerSource =
  SpecMappedImageSource ResolverProvider
  | FileLayerSource string
  | StaticSourceFromImage string
  | ContentLayerSource
  | CompositeLayerSource "LayerSource list"

datatype ConfigModifier = ConfigModifierFromLayerSource LayerSource

datatype TLSCertificate = X509KeyPair string string

datatype DialOption =
  WithUnaryInterceptor
  | WithStreamInterceptor
  | WithTransportCredentials TLSCertificate string
  | WithInsecure

record ImageSpec =
  BaseRef :: string
  IdeRef :: string

text \<open>
  Modelled from the spec: \<open>NewRemoteSpecProvider\<close>, \<open>NewCachingSpecProvider\<close> and the
  lookup of a provider are not part of \<open>registry.go\<close>. The remote provider issues an
  RPC call; the caching provider holds a bounded LRU of ImageSpecs keyed by name, with
  no expiry, in front of a delegate: a hit moves the entry to the front, a miss asks
  the delegate and, on success only, stores the answer at the front and drops the
  entries beyond the capacity.
\<close>

datatype ImageSpecProvider =
  RemoteProvider string "DialOption list"
  | CachingProvider nat "(string \<times> ImageSpec) list" ImageSpecProvider

fun GetSpec ::
  "(string \<Rightarrow> string \<Rightarrow> error + ImageSpec) \<Rightarrow> ImageSpecProvider \<Rightarrow> string
     \<Rightarrow> (error + ImageSpec) \<times> ImageSpecProvider" where
  "GetSpec rpc (RemoteProvider addr opts) name = (rpc addr name, RemoteProvider addr opts)"
| "GetSpec rpc (CachingProvider space entries delegate) name =
     (case map_of entries name of
        Some spec \<Rightarrow>
          (Inr spec,
           CachingProvider space ((name, spec) # filter (\<lambda>e. fst e \<noteq> name) entries) delegate)
      | None \<Rightarrow>
          (case GetSpec rpc delegate name of
             (Inl err, delegate') \<Rightarrow> (Inl err, CachingProvider space entries delegate')
           | (Inr spec, delegate') \<Rightarrow>
               (Inr spec, CachingProvider space (take space ((name, spec) # entries)) delegate')))"

fun GetSpecs ::
  "(string \<Rightarrow> string \<Rightarrow> error + ImageSpec) \<Rightarrow> ImageSpecProvider \<Rightarrow> string list
     \<Rightarrow> ImageSpecProvider" where
  "GetSpecs rpc p [] = p"
| "GetSpecs rpc p (name # names) = GetSpecs rpc (snd (GetSpec rpc p name)) names"

fun cached_names :: "ImageSpecProvider \<Rightarrow> string list" where
  "cached_names (RemoteProvider addr opts) = []"
| "cached_names (CachingProvider space entries delegate) = map fst entries"

text \<open>
  Modelled from the spec: \<open>api.ProviderPrefixRemote\<close> is declared outside
  \<open>registry.go\<close>; the specification addresses the remote provider as \<open>remote\<close>.
\<close>

definition ProviderPrefixRemote :: string where
  "ProviderPrefixRemote = ''remote''"

record Registry =
  Config :: Config
  Resolver :: ResolverProvider
  Store' :: ContentStore
  LayerSource :: LayerSource
  ConfigModifier :: ConfigModifier
  SpecProvider :: "string \<rightharpoonup> ImageSpecProvider"

definition error_msg :: "error \<Rightarrow> string" where
  "error_msg e = (case e of Err m \<Rightarrow> m)"

text \<open>The loop of \<open>NewRegistry\<close> over \<open>cfg.StaticLayer\<close>.\<close>

fun static_layers :: "World \<Rightarrow> ResolverProvider \<Rightarrow> StaticLayerCfg list \<Rightarrow> LayerSource list
    \<Rightarrow> error + LayerSource list" where
  "static_layers w newResolver [] layerSources = Inr layerSources"
| "static_layers w newResolver (sl # sls) layerSources =
     (if Type' sl = ''file'' then
        (case NewFileLayerSource w (Ref sl) of
           Some err \<Rightarrow> Inl (Err (''cannot source layer from '' @ Ref sl @ '': '' @ error_msg err))
         | None \<Rightarrow> static_layers w newResolver sls (layerSources @ [FileLayerSource (Ref sl)]))
      else if Type' sl = ''image'' then
        (case NewStaticSourceFromImage w (Ref sl) of
           Some err \<Rightarrow> Inl (Err (''cannot source layer from '' @ Ref sl @ '': '' @ error_msg err))
         | None \<Rightarrow> static_layers w newResolver sls (layerSources @ [StaticSourceFromImage (Ref sl)]))
      else Inl (Err (''unknown static layer type: '' @ Type' sl)))"

text \<open>
  The dial options of the remote spec provider: with TLS configured, the CA, the
  certificate and the key are read from their paths, below \<open>TELEPRESENCE_ROOT\<close>
  when that is set.
\<close>

definition remote_dial_options :: "World \<Rightarrow> RemoteSpecProviderCfg \<Rightarrow> error + DialOption list" where
  "remote_dial_options w rsp =
     (let opts = [WithUnaryInterceptor, WithStreamInterceptor]
      in case TLS rsp of
        Some t \<Rightarrow>
          (let root = os_Getenv w ''TELEPRESENCE_ROOT'';
               ca = (if root \<noteq> [] then filepath_Join root (Authority t) else Authority t);
               crt = (if root \<noteq> [] then filepath_Join root (Certificate t) else Certificate t);
               key = (if root \<noteq> [] then filepath_Join root (PrivateKey t) else PrivateKey t)
           in case os_ReadFile w ca of
             (rootCA, Some err) \<Rightarrow>
               Inl (Err (''could not read ca certificate: '' @ error_msg err))
           | (rootCA, None) \<Rightarrow>
               (if \<not> AppendCertsFromPEM w rootCA then Inl (Err ''failed to append ca certs'')
                else case tls_LoadX509KeyPair w crt key of
                  Some err \<Rightarrow> Inl (Err (''cannot load ws-manager certs: '' @ error_msg err))
                | None \<Rightarrow> Inr (opts @ [WithTransportCredentials (X509KeyPair crt key) rootCA])))
      | None \<Rightarrow> Inr (opts @ [WithInsecure]))"

definition spec_providers :: "World \<Rightarrow> Config \<Rightarrow> error + (string \<rightharpoonup> ImageSpecProvider)" where
  "spec_providers w cfg =
     (case RemoteSpecProvider cfg of
        None \<Rightarrow> Inr Map.empty
      | Some rsp \<Rightarrow>
          (case remote_dial_options w rsp of
             Inl err \<Rightarrow> Inl err
           | Inr opts \<Rightarrow>
               (case NewCachingSpecProvider w 128 of
                  Some err \<Rightarrow>
                    Inl (Err (''cannot create caching spec provider: '' @ error_msg err))
                | None \<Rightarrow>
                    Inr (Map.empty(ProviderPrefixRemote \<mapsto>
                           CachingProvider 128 [] (RemoteProvider (Addr rsp) opts))))))"

definition NewRegistry :: "World \<Rightarrow> Config \<Rightarrow> ResolverProvider \<Rightarrow> error + Registry" where
  "NewRegistry w cfg newResolver =
     (let tproot = os_Getenv w ''TELEPRESENCE_ROOT'';
          storePath = (if tproot \<noteq> [] then filepath_Join tproot (Store cfg) else Store cfg)
      in case local_NewStore w storePath of
        Some err \<Rightarrow> Inl err
      | None \<Rightarrow>
      (case newMetrics w of
        Some err \<Rightarrow> Inl err
      | None \<Rightarrow>
      (case NewSpecMappedImageSource w of
        Some err \<Rightarrow> Inl err
      | None \<Rightarrow>
      (case static_layers w newResolver (StaticLayer cfg) [SpecMappedImageSource newResolver] of
        Inl err \<Rightarrow> Inl err
      | Inr layerSources \<Rightarrow>
      (case NewContentLayerSource w of
        Some err \<Rightarrow> Inl (Err (''cannot create content layer source: '' @ error_msg err))
      | None \<Rightarrow>
      (case spec_providers w cfg of
        Inl err \<Rightarrow> Inl err
      | Inr specProvider \<Rightarrow>
          (let layerSource = CompositeLayerSource (layerSources @ [ContentLayerSource])
           in Inr \<lparr>Config = cfg,
                   Resolver = newResolver,
                   Store' = LocalStore storePath,
                   LayerSource = layerSource,
                   ConfigModifier = ConfigModifierFromLayerSource layerSource,
                   SpecProvider = specProvider\<rparr>)))))))"

section \<open>Serving\<close>

text \<open>
  \<open>OfferHandover\<close>: the name of the handover socket, and the goroutine that offers
  the listener on it. The result is the error, or the goroutine started (its socket
  file and its TCP listener) whose channel \<open>Serve\<close> reads; \<open>Inr None\<close> is the
  \<open>nil, nil\<close> return.
\<close>

record Offer =
  socketFN :: string
  tcpL :: Listener

definition OfferHandover :: "World \<Rightarrow> string \<Rightarrow> Listener \<Rightarrow> error + Offer option" where
  "OfferHandover w loc l =
     (let socketFN = filepath_Join loc (''rf-handover-'' @ sprint_d (time_Now_Unix w) @ ''.sock'')
      in if socketFN = [] then Inr None
         else case l of
           TCPListener fd \<Rightarrow> Inr (Some \<lparr>socketFN = socketFN, tcpL = l\<rparr>)
         | OtherListener fd \<Rightarrow> Inl (Err ''can only offer handovers for *net.TCPListener''))"

text \<open>
  The handler \<open>Serve\<close> gives its server: the \<open>ServeMux\<close> with the one pattern
  \<open>/\<close>, and under it the router with the registry's handlers, behind
  \<open>requireAuthentication\<close> when \<open>RequireAuth\<close> is set.
\<close>

definition Serve_routes :: "World \<Rightarrow> Registry \<Rightarrow> Router" where
  "Serve_routes w reg =
     registerHandler (dispatch_handlers w)
       (RouterWithPrefix (distv2_route_match w) (router_redirect_url w) (Prefix (Config reg)))"

definition Serve_handler :: "World \<Rightarrow> Registry \<Rightarrow> Handler" where
  "Serve_handler w reg =
     (let routes = Serve_routes w reg;
          handler = (if RequireAuth (Config reg)
                     then requireAuthentication (Router_ServeHTTP routes)
                     else Router_ServeHTTP routes)
      in ServeMux_ServeHTTP (servemux_redirect_url w) handler)"

text \<open>
  The listener \<open>Serve\<close> runs on: the attempt to receive one, when handover is enabled
  and a socket directory is set, and otherwise or when that gave no listener, a
  listener of its own on the port. The function that makes the attempt is a parameter
  of the definitions with the suffix \<open>with\<close>; \<open>Serve\<close> calls \<open>ReceiveHandover\<close>.
\<close>

definition Serve_addr :: "Registry \<Rightarrow> string" where
  "Serve_addr reg = CHR '':'' # sprint_d (Port (Config reg))"

definition Serve_receive_with ::
  "(Context \<Rightarrow> string \<Rightarrow> Listener option \<times> error option) \<Rightarrow> Registry
     \<Rightarrow> Listener option \<times> error option" where
  "Serve_receive_with receive reg =
     (let fn = Sockets (Handover (Config reg))
      in if Enabled (Handover (Config reg)) \<and> fn \<noteq> []
         then receive (WithTimeout Background (10 * Second)) (Sockets (Handover (Config reg)))
         else (None, None))"

definition Serve_listener_with ::
  "(Context \<Rightarrow> string \<Rightarrow> Listener option \<times> error option) \<Rightarrow> World \<Rightarrow> Registry
     \<Rightarrow> error + Listener" where
  "Serve_listener_with receive w reg =
     (case Serve_receive_with receive reg of
        (Some l, err) \<Rightarrow> Inr l
      | (None, err) \<Rightarrow> net_Listen w ''tcp'' (Serve_addr reg))"

definition Serve_receive :: "World \<Rightarrow> Registry \<Rightarrow> Listener option \<times> error option" where
  "Serve_receive w reg = Serve_receive_with (ReceiveHandover w) reg"

definition Serve_listener :: "World \<Rightarrow> Registry \<Rightarrow> error + Listener" where
  "Serve_listener w reg = Serve_listener_with (ReceiveHandover w) w reg"

text \<open>
  \<open>Serve\<close> up to the point where it blocks: it has returned an error, or it serves.
  \<open>Started\<close> holds the server's address and handler, the address of the extra
  plain-HTTP service of \<open>REGFAC_NO_TLS_DEBUG\<close>, the listener, the handover offer
  whose channel is \<open>hoc\<close>, and the certificate and key files when \<open>Serve\<close> is inside
  \<open>srv.ServeTLS(l, cert, key)\<close>; without them \<open>srv.Serve(l)\<close> runs in a goroutine
  and \<open>Serve\<close> waits in its \<open>select\<close>.
\<close>

record Started =
  srv_Addr :: string
  srv_Handler :: Handler
  debug_service :: "string option"
  listener :: Listener
  hoc :: "Offer option"
  ServeTLS :: "(string \<times> string) option"

definition Serve_start_with ::
  "(Context \<Rightarrow> string \<Rightarrow> Listener option \<times> error option) \<Rightarrow> World \<Rightarrow> Registry
     \<Rightarrow> error + Started" where
  "Serve_start_with receive w reg =
     (let handler = Serve_handler w reg;
          debug = os_Getenv w ''REGFAC_NO_TLS_DEBUG'';
          addr = Serve_addr reg
      in case Serve_listener_with receive w reg of
        Inl err \<Rightarrow> Inl err
      | Inr l \<Rightarrow>
          (case (if Enabled (Handover (Config reg))
                 then OfferHandover w (Sockets (Handover (Config reg))) l
                 else Inr None) of
             Inl err \<Rightarrow> Inl err
           | Inr offer \<Rightarrow>
               Inr \<lparr>srv_Addr = addr,
                    srv_Handler = handler,
                    debug_service = (if debug \<noteq> [] then Some debug else None),
                    listener = l,
                    hoc = offer,
                    ServeTLS =
                      (case TLS' (Config reg) of
                         None \<Rightarrow> None
                       | Some t \<Rightarrow>
                           (let tproot = os_Getenv w ''TELEPRESENCE_ROOT''
                            in if tproot \<noteq> []
                               then Some (filepath_Join tproot (Certificate' t),
                                          filepath_Join tproot (PrivateKey' t))
                               else Some (Certificate' t, PrivateKey' t)))\<rparr>))"

definition Serve_start :: "World \<Rightarrow> Registry \<Rightarrow> error + Started" where
  "Serve_start w reg = Serve_start_with (ReceiveHandover w) w reg"

subsection \<open>The select of \<open>Serve\<close> and the goroutines it waits for\<close>

text \<open>
  Without TLS, \<open>Serve\<close> waits in a \<open>select\<close> on two channels. \<open>srvErrChan\<close>
  (capacity 1) receives the result of \<open>srv.Serve(l)\<close>. \<open>hoc\<close> is written by the
  goroutine of \<open>OfferHandover\<close>: it offers the listener; when the offer fails it
  returns; otherwise it sends \<open>true\<close>, calls \<open>Shutdown\<close> when there is a server to
  shut down, and returns. Its deferred \<open>close\<close> closes the channel in every case, and
  a receive from the closed channel yields \<open>false\<close>.

  The state holds where \<open>Serve\<close>, the offer goroutine and the server are; an event is
  one step of one of them, or a rendezvous on \<open>hoc\<close>. \<open>step\<close> is \<open>None\<close> for an
  event that cannot happen in the state.
\<close>

datatype MainPC = AtSelect | AwaitClose | Returned "error option"

datatype OfferPC =
  NoOffer | Offering | OfferFailed | SendingTrue | NoShutdowner
  | ShuttingDown | Draining | ShutdownDone

datatype ServerPC = Serving | Stopped

record SelectState =
  main :: MainPC
  offer :: OfferPC
  server :: ServerPC
  srvErrChan :: "error option"
  shutdowner :: bool

datatype Event =
  OfferFails error
  | OfferSucceeds
  | ServerFails error
  | RecvSrvErr
  | RecvHoc
  | ShutdownStarts
  | ShutdownReturns "error option"

definition ErrServerClosed :: error where
  "ErrServerClosed = Err ''http: Server closed''"

definition hoc_closed :: "SelectState \<Rightarrow> bool" where
  "hoc_closed s = (offer s = OfferFailed \<or> offer s = NoShutdowner \<or> offer s = ShutdownDone)"

fun step :: "Event \<Rightarrow> SelectState \<Rightarrow> SelectState option" where
  "step (OfferFails err) s =
     (if offer s = Offering then Some (s\<lparr>offer := OfferFailed\<rparr>) else None)"
| "step OfferSucceeds s =
     (if offer s = Offering then Some (s\<lparr>offer := SendingTrue\<rparr>) else None)"
| "step (ServerFails err) s =
     (if server s = Serving then Some (s\<lparr>server := Stopped, srvErrChan := Some err\<rparr>) else None)"
| "step RecvSrvErr s =
     (if main s = AtSelect then
        (case srvErrChan s of
           Some err \<Rightarrow> Some (s\<lparr>main := Returned (Some err), srvErrChan := None\<rparr>)
         | None \<Rightarrow> None)
      else None)"
| "step RecvHoc s =
     (if main s = AtSelect then
        (if offer s = SendingTrue
         then Some (s\<lparr>main := AwaitClose,
                       offer := (if shutdowner s then ShuttingDown else NoShutdowner)\<rparr>)
         else if hoc_closed s then Some (s\<lparr>main := Returned None\<rparr>)
         else None)
      else if main s = AwaitClose then
        (if hoc_closed s then Some (s\<lparr>main := Returned None\<rparr>) else None)
      else None)"
| "step ShutdownStarts s =
     (if offer s = ShuttingDown then
        (if server s = Serving
         then Some (s\<lparr>offer := Draining, server := Stopped, srvErrChan := Some ErrServerClosed\<rparr>)
         else Some (s\<lparr>offer := Draining\<rparr>))
      else None)"
| "step (ShutdownReturns err) s =
     (if offer s = Draining then Some (s\<lparr>offer := ShutdownDone\<rparr>) else None)"

fun exec :: "Event list \<Rightarrow> SelectState \<Rightarrow> SelectState option" where
  "exec [] s = Some s"
| "exec (e # es) s = (case step e s of None \<Rightarrow> None | Some s' \<Rightarrow> exec es s')"

text \<open>
  The state in which \<open>Serve\<close> enters the \<open>select\<close>: the server goroutine serves, the
  offer goroutine (if \<open>OfferHandover\<close> started one) offers, and the shutdowner handed
  to \<open>OfferHandover\<close> is \<open>reg.srv\<close>.
\<close>

definition Serve_select :: "Started \<Rightarrow> SelectState" where
  "Serve_select st =
     \<lparr>main = AtSelect,
      offer = (case hoc st of None \<Rightarrow> NoOffer | Some _ \<Rightarrow> Offering),
      server = Serving,
      srvErrChan = None,
      shutdowner = True\<rparr>"

text \<open>
  \<open>MustServe\<close>: an error of \<open>Serve\<close> is logged as fatal, which exits the process
  with code 1; otherwise \<open>MustServe\<close> returns.
\<close>

datatype Exit = Returns | Fatal nat

definition MustServe :: "error option \<Rightarrow> Exit" where
  "MustServe err = (case err of None \<Rightarrow> Returns | Some _ \<Rightarrow> Fatal 1)"

section \<open>Example requests and worlds\<close>

text \<open>
  A donor directory holding one handover socket, and a world in which the handover
  from any socket file succeeds with a TCP listener.
\<close>

definition donor_dir :: "DirEntry list" where
  "donor_dir = [\<lparr>Name = ''rf-handover-1700000000.sock'', Mode = ModeSocket OR 493\<rparr>]"

text \<open>
  A route matcher for \<open>quiet_world\<close>, after the routes of the specification:
  \<open>/v2/\<close> is the base route, \<open>/v2/<name>/manifests/<reference>\<close> the manifest
  route and \<open>/v2/<name>/blobs/<digest>\<close> the blob route, below the prefix.
\<close>

fun v2_elems :: "string list \<Rightarrow> RouteName option" where
  "v2_elems [] = None"
| "v2_elems [e] = (if e = [] then Some RouteNameBase else None)"
| "v2_elems [n, k] = None"
| "v2_elems [n, k, x] =
     (if n \<noteq> [] \<and> x \<noteq> [] \<and> k = ''manifests'' then Some RouteNameManifest
      else if n \<noteq> [] \<and> x \<noteq> [] \<and> k = ''blobs'' then Some RouteNameBlob
      else None)"
| "v2_elems (n # es) = (if n = [] then None else v2_elems es)"

definition v2_routes :: "string \<Rightarrow> Request \<Rightarrow> RouteName option" where
  "v2_routes prefix r =
     (if take (length (prefix @ ''/v2/'')) (Path r) = prefix @ ''/v2/''
      then v2_elems (split_path (drop (length (prefix @ ''/v2/'')) (Path r)))
      else None)"

text \<open>The URL string of a path and a query that need no escaping.\<close>

definition plain_url :: "string \<Rightarrow> string \<Rightarrow> string" where
  "plain_url path query = (if query = [] then path else path @ CHR ''?'' # query)"

definition quiet_world :: World where
  "quiet_world = \<lparr>
     os_Getenv = (\<lambda>_. []),
     os_ReadDir = (\<lambda>_. (donor_dir, None)),
     os_ReadFile = (\<lambda>_. ([], None)),
     time_Now_Unix = 1700000000,
     net_Listen = (\<lambda>_ _. Inr (TCPListener 3)),
     handover_ReceiveHandover = (\<lambda>_ _. (Some (TCPListener 7), None)),
     local_NewStore = (\<lambda>_. None),
     newMetrics = None,
     NewSpecMappedImageSource = None,
     NewFileLayerSource = (\<lambda>_. None),
     NewStaticSourceFromImage = (\<lambda>_. None),
     NewContentLayerSource = None,
     AppendCertsFromPEM = (\<lambda>_. True),
     tls_LoadX509KeyPair = (\<lambda>_ _. None),
     NewCachingSpecProvider = (\<lambda>_. None),
     distv2_route_match = v2_routes,
     dispatch_handlers = \<lparr>manifest_handler = http_NotFound, blob_handler = http_NotFound\<rparr>,
     servemux_redirect_url = plain_url,
     router_redirect_url = (\<lambda>r p. plain_url p (RawQuery r))\<rparr>"

text \<open>A registry with handover enabled and authentication required.\<close>

definition donor_config :: Config where
  "donor_config =
     \<lparr>Port = 5000, Prefix = [], StaticLayer = [], RemoteSpecProvider = None,
      Store = ''/var/store'', RequireAuth = True, TLS' = None,
      Handover = \<lparr>Enabled = True, Sockets = ''/var/run/handover''\<rparr>\<rparr>"

definition donor_registry :: Registry where
  "donor_registry =
     \<lparr>Config = donor_config,
      Resolver = ResolverProvider 0,
      Store' = LocalStore ''/var/store'',
      LayerSource = CompositeLayerSource [SpecMappedImageSource (ResolverProvider 0), ContentLayerSource],
      ConfigModifier = ConfigModifierFromLayerSource
        (CompositeLayerSource [SpecMappedImageSource (ResolverProvider 0), ContentLayerSource]),
      SpecProvider = Map.empty\<rparr>"

definition no_headers :: Header where
  "no_headers = Map.empty"

definition http_request :: "string \<Rightarrow> string \<Rightarrow> Header \<Rightarrow> Request" where
  "http_request method path h =
     \<lparr>Method = method, Path = path, RawQuery = [], RequestURI = path,
      ProtoMajor = 1, ProtoMinor = 1, req_Header = h\<rparr>"

definition anonymous_request :: Request where
  "anonymous_request = http_request ''GET'' ''/v2/'' no_headers"

definition double_slash_request :: Request where
  "double_slash_request = http_request ''GET'' ''//v2/'' no_headers"

definition bearer_request :: Request where
  "bearer_request =
     http_request ''GET'' ''/v2/'' (Header_Set no_headers ''Authorization'' ''Bearer dXNlcjpwYXNz'')"

definition basic_request :: Request where
  "basic_request =
     http_request ''GET'' ''/v2/remote/acme/alice/manifests/x''
       (Header_Set no_headers ''Authorization'' ''Basic dXNlcjpwYXNz'')"

definition unrouted_request :: Request where
  "unrouted_request = http_request ''GET'' ''/healthz'' no_headers"

definition unrouted_head_request :: Request where
  "unrouted_head_request = http_request ''HEAD'' ''/healthz'' no_headers"

text \<open>A receive function that always fails.\<close>

definition failing_receive :: "Context \<Rightarrow> string \<Rightarrow> Listener option \<times> error option" where
  "failing_receive ctx loc = (None, Some (Err ''handover failed''))"

definition open_registry :: Registry where
  "open_registry = donor_registry\<lparr>Config := donor_config\<lparr>RequireAuth := False\<rparr>\<rparr>"

definition getenv_telepresence :: "string \<Rightarrow> string" where
  "getenv_telepresence key = (if key = ''TELEPRESENCE_ROOT'' then ''/tel'' else [])"

definition telepresence_world :: World where
  "telepresence_world = quiet_world\<lparr>os_Getenv := getenv_telepresence\<rparr>"

definition file_layer_config :: Config where
  "file_layer_config =
     donor_config\<lparr>StaticLayer := [\<lparr>Ref = ''/layers/ide.tar.gz'', Type' = ''file''\<rparr>],
                  RemoteSpecProvider :=
                    Some \<lparr>Addr = ''ws-manager:8080'',
                          TLS = Some \<lparr>Authority = ''/certs/ca.crt'',
                                      Certificate = ''/certs/tls.crt'',
                                      PrivateKey = ''/certs/tls.key''\<rparr>\<rparr>,
                  TLS' := Some \<lparr>Certificate' = ''/srv/tls.crt'', PrivateKey' = ''/srv/tls.key''\<rparr>\<rparr>"

text \<open>
  The registry that \<open>NewRegistry\<close> builds from \<open>file_layer_config\<close> under
  \<open>TELEPRESENCE_ROOT=/tel\<close>.
\<close>

definition file_layer_registry :: Registry where
  "file_layer_registry =
     \<lparr>Config = file_layer_config,
      Resolver = ResolverProvider 0,
      Store' = LocalStore ''/tel/var/store'',
      LayerSource =
        CompositeLayerSource
          [SpecMappedImageSource (ResolverProvider 0),
           FileLayerSource ''/layers/ide.tar.gz'',
           ContentLayerSource],
      ConfigModifier =
        ConfigModifierFromLayerSource
          (CompositeLayerSource
             [SpecMappedImageSource (ResolverProvider 0),
              FileLayerSource ''/layers/ide.tar.gz'',
              ContentLayerSource]),
      SpecProvider =
        Map.empty(ProviderPrefixRemote \<mapsto>
          CachingProvider 128 []
            (RemoteProvider ''ws-manager:8080''
               [WithUnaryInterceptor, WithStreamInterceptor,
                WithTransportCredentials (X509KeyPair ''/tel/certs/tls.crt'' ''/tel/certs/tls.key'') []]))\<rparr>"

text \<open>
  The state of a caching provider is in order when it holds no more entries than its
  capacity and no name twice.
\<close>

fun lru_ok :: "ImageSpecProvider \<Rightarrow> bool" where
  "lru_ok (RemoteProvider addr opts) = True"
| "lru_ok (CachingProvider space entries delegate) =
     (length entries \<le> space \<and> distinct (map fst entries) \<and> lru_ok delegate)"

fun capacity :: "ImageSpecProvider \<Rightarrow> nat option" where
  "capacity (RemoteProvider addr opts) = None"
| "capacity (CachingProvider space entries delegate) = Some space"

text \<open>
  \<open>Serve\<close> of the donor registry in \<open>quiet_world\<close>, at the point where it enters
  the \<open>select\<close>.
\<close>

definition donor_started :: Started where
  "donor_started =
     \<lparr>srv_Addr = '':5000'',
      srv_Handler = Serve_handler quiet_world donor_registry,
      debug_service = None,
      listener = TCPListener 3,
      hoc = Some \<lparr>socketFN = ''/var/run/handover/rf-handover-1700000000.sock'',
                   tcpL = TCPListener 3\<rparr>,
      ServeTLS = None\<rparr>"

text \<open>
  The offer goroutine has got past the handover: it waits for \<open>Shutdown\<close> to begin,
  to end, or has returned after it (or without it, when there is no shutdowner).
\<close>

definition handed_over :: "SelectState \<Rightarrow> bool" where
  "handed_over s =
     (offer s = NoShutdowner \<or> offer s = ShuttingDown \<or> offer s = Draining
      \<or> offer s = ShutdownDone)"

section \<open>Notions used in the statements\<close>

text \<open>
  A path element that \<open>filepath.Clean\<close> keeps as it is: not empty, not \<open>.\<close> or
  \<open>..\<close>, and without a separator.
\<close>

definition plain_elem :: "string \<Rightarrow> bool" where
  "plain_elem e = (e \<noteq> [] \<and> e \<noteq> ''.'' \<and> e \<noteq> ''..'' \<and> CHR ''/'' \<notin> set e)"


text \<open>
  A request that the server and its \<open>ServeMux\<close> hand to the installed handler, and
  one that also gets past the canonical-path redirect of the router to its routes.
\<close>

definition reaches_handler :: "Request \<Rightarrow> bool" where
  "reaches_handler r =
     (RequestURI r \<noteq> ''*''
      \<and> (if Method r = ''CONNECT'' then is_rooted (Path r) else cleanPath (Path r) = Path r))"

definition reaches_routes :: "Request \<Rightarrow> bool" where
  "reaches_routes r = (RequestURI r \<noteq> ''*'' \<and> cleanPath (Path r) = Path r)"

section \<open>Properties of the handover reception\<close>

lemma mult_ModeSocket: "x * ModeSocket = push_bit 24 x"
  by (simp add: ModeSocket_def push_bit_eq_mult)

lemma ModeType_low_bits: "n < 8 \<Longrightarrow> \<not> bit ModeType n"
  unfolding ModeType_def ModeSocket_def ModeDir_def ModeSymlink_def ModeDevice_def
    ModeNamedPipe_def ModeCharDevice_def ModeIrregular_def
  by (simp add: bit_or_iff bit_push_bit_iff del: push_bit_of_1)

lemma Type_times_ModeSocket: "Type f * ModeSocket = 0"
  unfolding mult_ModeSocket Type_def
  by (rule bit_word_eqI) (auto simp add: bit_push_bit_iff bit_and_iff ModeType_low_bits)

lemma latest_step_skips: "latest_step f fn = fn"
  by (simp add: latest_step_def Type_times_ModeSocket)

lemma fold_latest_step: "fold latest_step fs fn = fn"
  by (induction fs arbitrary: fn) (simp_all add: latest_step_skips)

lemma latest_socket_empty: "latest_socket fs = []"
  by (simp add: latest_socket_def fold_latest_step)

lemma ReceiveHandover_no_listener: "fst (ReceiveHandover w ctx loc) = None"
  by (simp add: ReceiveHandover_def latest_socket_empty split: prod.splits option.splits)

lemma donor_dir_has_socket: "socket_names donor_dir = [''rf-handover-1700000000.sock'']"
proof -
  have "ModeSocket AND (ModeSocket OR 493) AND ModeType \<noteq> 0"
    unfolding ModeType_def ModeSocket_def ModeDir_def ModeSymlink_def ModeDevice_def
      ModeNamedPipe_def ModeCharDevice_def ModeIrregular_def
    by simp
  then show ?thesis
    by (simp add: socket_names_def donor_dir_def is_socket_def Type_def ac_simps)
qed

text \<open>
  C1 (the code does not do this). The listing \<open>donor_dir\<close> holds the Unix socket
  \<open>rf-handover-1700000000.sock\<close>, and the handover from it would yield a TCP
  listener; \<open>ReceiveHandover\<close> skips the entry, because the product of its type bits
  with \<open>os.ModeSocket\<close> wraps to zero, and returns no listener and no error without
  attempting the handover.
\<close>

theorem C1_ReceiveHandover_skips_sockets:
  "socket_names donor_dir = [''rf-handover-1700000000.sock''] \<and>
   handover_ReceiveHandover quiet_world (WithTimeout Background (10 * Second))
     (filepath_Join ''/var/run/handover'' ''rf-handover-1700000000.sock'')
     = (Some (TCPListener 7), None) \<and>
   latest_socket donor_dir = [] \<and>
   ReceiveHandover quiet_world (WithTimeout Background (10 * Second)) ''/var/run/handover''
     = (None, None)"
  by (simp add: donor_dir_has_socket latest_socket_empty ReceiveHandover_def quiet_world_def)

section \<open>Properties of the response writer\<close>

lemmas char_eval =
  is_upper_def is_lower_def is_digit_def to_upper_def to_lower_def char_of_def bit_Suc_0_iff

lemmas path_eval = filepath_Join_def filepath_Clean_def is_rooted_def clean_elems_def clean_step_def

lemma canon_www: "CanonicalMIMEHeaderKey ''WWW-Authenticate'' = ''Www-Authenticate''"
  by (simp add: CanonicalMIMEHeaderKey_def validHeaderFieldByte_def Let_def char_eval)

lemma canon_auth: "CanonicalMIMEHeaderKey ''Authorization'' = ''Authorization''"
  by (simp add: CanonicalMIMEHeaderKey_def validHeaderFieldByte_def Let_def char_eval)

lemma canon_ct: "CanonicalMIMEHeaderKey ''Content-Type'' = ''Content-Type''"
  by (simp add: CanonicalMIMEHeaderKey_def validHeaderFieldByte_def Let_def char_eval)

lemma canon_cl: "CanonicalMIMEHeaderKey ''Content-Length'' = ''Content-Length''"
  by (simp add: CanonicalMIMEHeaderKey_def validHeaderFieldByte_def Let_def char_eval)

lemma canon_loc: "CanonicalMIMEHeaderKey ''Location'' = ''Location''"
  by (simp add: CanonicalMIMEHeaderKey_def validHeaderFieldByte_def Let_def char_eval)

lemma canon_conn: "CanonicalMIMEHeaderKey ''Connection'' = ''Connection''"
  by (simp add: CanonicalMIMEHeaderKey_def validHeaderFieldByte_def Let_def char_eval)

lemma canon_xcto: "CanonicalMIMEHeaderKey ''X-Content-Type-Options'' = ''X-Content-Type-Options''"
  by (simp add: CanonicalMIMEHeaderKey_def validHeaderFieldByte_def Let_def char_eval)

lemmas canon_keys = canon_www canon_auth canon_ct canon_cl canon_loc canon_conn canon_xcto

lemma WriteHeader_first:
  assumes "\<not> wroteHeader w"
  shows "status (WriteHeader w code) = code"
    and "wroteHeader (WriteHeader w code)"
    and "sent_Header (WriteHeader w code) = rw_Header w"
    and "body (WriteHeader w code) = body w"
    and "written (WriteHeader w code) = written w"
    and "rw_Method (WriteHeader w code) = rw_Method w"
  using assms
  by (simp_all add: WriteHeader_def Let_def split: list.splits option.splits)

lemma WriteHeader_again: "wroteHeader w \<Longrightarrow> WriteHeader w code = w"
  by (simp add: WriteHeader_def)

lemma Write_after_header:
  assumes "wroteHeader w"
  shows "status (Write w data) = status w"
    and "sent_Header (Write w data) = sent_Header w"
    and "wroteHeader (Write w data)"
  using assms
  by (simp_all add: Write_def WriteHeader_again Let_def split: option.splits)

lemma finishRequest_done: "wroteHeader w \<Longrightarrow> finishRequest w = w"
  by (simp add: finishRequest_def WriteHeader_again)

lemma new_ResponseWriter_fields:
  "\<not> wroteHeader (new_ResponseWriter r)"
  "rw_Header (new_ResponseWriter r) = Map.empty"
  "body (new_ResponseWriter r) = []"
  "written (new_ResponseWriter r) = 0"
  "rw_Method (new_ResponseWriter r) = Method r"
  "contentLength (new_ResponseWriter r) = None"
  by (simp_all add: new_ResponseWriter_def)

section \<open>Properties of the authentication wrapper\<close>

lemma fail_response:
  assumes "\<not> wroteHeader rw"
  shows "status (fail rw) = 401"
    and "wroteHeader (fail rw)"
    and "sent_Header (fail rw) ''Www-Authenticate''
           = Some (header_values (rw_Header rw) ''Www-Authenticate'' @ [''Basic''])"
    and "body (fail rw) = body rw"
  using assms
  by (simp_all add: fail_def WriteHeader_first StatusUnauthorized_def Header_Add_def canon_www)

text \<open>
  C7. \<open>requireAuthentication\<close> never looks at the credentials. Every request whose
  Basic header parses goes to the wrapped handler, whatever user name and password it
  carries, and the response is that handler's. When the header is absent or does not
  parse, the response is that of \<open>fail\<close>: on a writer that has sent no status yet,
  status 401, the header \<open>WWW-Authenticate: Basic\<close> and nothing added to the body.
  So the status is 401 exactly when the header is absent or does not parse, or the
  wrapped handler itself answers 401.
\<close>

theorem C7_credentials_not_checked:
  "(\<forall>username password. BasicAuth r = Some (username, password)
      \<longrightarrow> requireAuthentication h r rw = h r rw)
   \<and> (BasicAuth r = None \<longrightarrow> requireAuthentication h r rw = fail rw)
   \<and> (\<not> wroteHeader rw \<longrightarrow>
         (BasicAuth r = None \<longrightarrow>
            status (requireAuthentication h r rw) = 401
            \<and> sent_Header (requireAuthentication h r rw) (CanonicalMIMEHeaderKey ''WWW-Authenticate'')
                = Some (header_values (rw_Header rw) (CanonicalMIMEHeaderKey ''WWW-Authenticate'')
                        @ [''Basic''])
            \<and> body (requireAuthentication h r rw) = body rw)
         \<and> (status (requireAuthentication h r rw) = 401
              \<longleftrightarrow> BasicAuth r = None \<or> status (h r rw) = 401))"
proof (cases "BasicAuth r")
  case None
  then have e: "requireAuthentication h r rw = fail rw"
    by (simp add: requireAuthentication_def)
  show ?thesis
  proof (cases "wroteHeader rw")
    case True
    with None e show ?thesis
      by simp
  next
    case False
    with None e fail_response [OF False] show ?thesis
      by (simp add: canon_www)
  qed
next
  case (Some up)
  then have "requireAuthentication h r rw = h r rw"
    by (simp add: requireAuthentication_def)
  with Some show ?thesis
    by simp
qed

lemma basic_parses: "BasicAuth basic_request = Some (''user'', ''pass'')"
  by (simp add: BasicAuth_def basic_request_def http_request_def Header_Get_def Header_Set_def
      header_values_def no_headers_def canon_auth parseBasicAuth_def EqualFold_def
      base64_DecodeString_def b64_val_def byte_char_def char_eval)

lemma bearer_fails: "BasicAuth bearer_request = None"
  by (simp add: BasicAuth_def bearer_request_def http_request_def Header_Get_def Header_Set_def
      header_values_def no_headers_def canon_auth parseBasicAuth_def EqualFold_def char_eval)

lemma no_headers_no_auth: "BasicAuth (http_request method path no_headers) = None"
  by (simp add: BasicAuth_def http_request_def Header_Get_def header_values_def no_headers_def)

text \<open>
  A request with the credentials \<open>user:pass\<close> is forwarded; one with a Bearer token
  is challenged with status 401.
\<close>

theorem C7_credentials_not_checked_witness:
  "\<not> wroteHeader (new_ResponseWriter bearer_request)
   \<and> BasicAuth basic_request = Some (''user'', ''pass'')
   \<and> requireAuthentication handleAPIBase basic_request (new_ResponseWriter basic_request)
       = handleAPIBase basic_request (new_ResponseWriter basic_request)
   \<and> BasicAuth bearer_request = None
   \<and> status (requireAuthentication handleAPIBase bearer_request (new_ResponseWriter bearer_request))
       = 401"
proof -
  have n: "\<not> wroteHeader (new_ResponseWriter bearer_request)"
    by (simp add: new_ResponseWriter_fields)
  note t1 = C7_credentials_not_checked
    [of basic_request handleAPIBase "new_ResponseWriter basic_request"]
  note t2 = C7_credentials_not_checked
    [of bearer_request handleAPIBase "new_ResponseWriter bearer_request"]
  from t1 [THEN conjunct1] basic_parses
  have f: "requireAuthentication handleAPIBase basic_request (new_ResponseWriter basic_request)
       = handleAPIBase basic_request (new_ResponseWriter basic_request)"
    by blast
  from t2 [THEN conjunct2, THEN conjunct2] n bearer_fails
  have c: "status (requireAuthentication handleAPIBase bearer_request
             (new_ResponseWriter bearer_request)) = 401"
    by blast
  from n basic_parses f bearer_fails c show ?thesis
    by (intro conjI)
qed

section \<open>Properties of the server in front of the authentication wrapper\<close>

lemma is_rooted_cleanPath: "is_rooted (cleanPath p)"
  by (cases p) (simp_all add: cleanPath_def filepath_Clean_def is_rooted_def Let_def)

lemma clean_path_rooted: "cleanPath p = p \<Longrightarrow> is_rooted p"
  using is_rooted_cleanPath [of p] by simp

lemma reaches_routes_handler: "reaches_routes r \<Longrightarrow> reaches_handler r"
  by (simp add: reaches_routes_def reaches_handler_def clean_path_rooted)

lemma ServeMux_passes:
  "reaches_handler r \<Longrightarrow> ServeMux_ServeHTTP u h r rw = h r rw"
  by (auto simp add: ServeMux_ServeHTTP_def reaches_handler_def)

lemma Server_passes:
  "reaches_handler r \<Longrightarrow>
     Server_serve (ServeMux_ServeHTTP u h) r = finishRequest (h r (new_ResponseWriter r))"
  by (simp add: Server_serve_def serverHandler_def ServeMux_passes) (simp add: reaches_handler_def)

lemma http_NotFound_response:
  assumes "\<not> wroteHeader rw"
  shows "status (http_NotFound r rw) = 404"
    and "wroteHeader (http_NotFound r rw)"
    and "sent_Header (http_NotFound r rw)
           = (rw_Header rw)(''Content-Type'' \<mapsto> [''text/plain; charset=utf-8''],
                            ''X-Content-Type-Options'' \<mapsto> [''nosniff''])"
  using assms
  by (simp_all add: http_NotFound_def Let_def Write_after_header WriteHeader_first
      StatusNotFound_def Header_Set_def canon_keys)

lemma http_Redirect_response:
  assumes "\<not> wroteHeader rw"
  shows "status (http_Redirect url r rw) = 301"
    and "wroteHeader (http_Redirect url r rw)"
    and "sent_Header (http_Redirect url r rw) ''Location'' = Some [url]"
    and "rw_Header rw ''Www-Authenticate'' = None
           \<Longrightarrow> sent_Header (http_Redirect url r rw) ''Www-Authenticate'' = None"
  using assms
  by (simp_all add: http_Redirect_def Let_def Write_after_header WriteHeader_first
      StatusMovedPermanently_def Header_Set_def canon_keys)

lemma Server_own_answer:
  assumes "\<not> reaches_handler r"
  shows "status (Server_serve (ServeMux_ServeHTTP u h) r) \<in> {200, 301, 400, 404}"
    and "sent_Header (Server_serve (ServeMux_ServeHTTP u h) r) ''Www-Authenticate'' = None"
    and "Server_serve (ServeMux_ServeHTTP u h) r = Server_serve (ServeMux_ServeHTTP u h') r"
proof -
  let ?w = "new_ResponseWriter r"
  have n: "\<not> wroteHeader ?w" and e: "rw_Header ?w = Map.empty"
    by (simp_all add: new_ResponseWriter_fields)
  consider (options) "RequestURI r = ''*''" "Method r = ''OPTIONS''"
    | (star) "RequestURI r = ''*''" "Method r \<noteq> ''OPTIONS''"
    | (connect) "RequestURI r \<noteq> ''*''" "Method r = ''CONNECT''" "\<not> is_rooted (Path r)"
    | (unclean) "RequestURI r \<noteq> ''*''" "Method r \<noteq> ''CONNECT''" "cleanPath (Path r) \<noteq> Path r"
    using assms by (auto simp add: reaches_handler_def split: if_splits)
  then have "status (Server_serve (ServeMux_ServeHTTP u h) r) \<in> {200, 301, 400, 404}
      \<and> sent_Header (Server_serve (ServeMux_ServeHTTP u h) r) ''Www-Authenticate'' = None
      \<and> Server_serve (ServeMux_ServeHTTP u h) r = Server_serve (ServeMux_ServeHTTP u h') r"
  proof cases
    case options
    then show ?thesis
      by (simp add: Server_serve_def serverHandler_def globalOptionsHandler_def finishRequest_def
          WriteHeader_first new_ResponseWriter_fields StatusOK_def Header_Set_def canon_keys)
  next
    case star
    then show ?thesis
      by (simp add: Server_serve_def serverHandler_def ServeMux_ServeHTTP_def
          finishRequest_done WriteHeader_first new_ResponseWriter_fields StatusBadRequest_def
          Header_Set_def canon_keys)
  next
    case connect
    then show ?thesis
      by (simp add: Server_serve_def serverHandler_def ServeMux_ServeHTTP_def
          finishRequest_done http_NotFound_response [OF n] e)
  next
    case unclean
    then show ?thesis
      by (simp add: Server_serve_def serverHandler_def ServeMux_ServeHTTP_def
          finishRequest_done http_Redirect_response [OF n] e)
  qed
  then show "status (Server_serve (ServeMux_ServeHTTP u h) r) \<in> {200, 301, 400, 404}"
    and "sent_Header (Server_serve (ServeMux_ServeHTTP u h) r) ''Www-Authenticate'' = None"
    and "Server_serve (ServeMux_ServeHTTP u h) r = Server_serve (ServeMux_ServeHTTP u h') r"
    by blast+
qed

lemma Serve_handler_auth:
  "RequireAuth (Config reg) \<Longrightarrow>
     Serve_handler w reg
       = ServeMux_ServeHTTP (servemux_redirect_url w)
           (requireAuthentication (Router_ServeHTTP (Serve_routes w reg)))"
  by (simp add: Serve_handler_def Let_def)

lemma Serve_handler_open:
  "\<not> RequireAuth (Config reg) \<Longrightarrow>
     Serve_handler w reg
       = ServeMux_ServeHTTP (servemux_redirect_url w) (Router_ServeHTTP (Serve_routes w reg))"
  by (simp add: Serve_handler_def Let_def)

lemma Server_challenge:
  assumes "BasicAuth r = None" and "reaches_handler r"
  shows "Server_serve (ServeMux_ServeHTTP u (requireAuthentication h)) r = fail (new_ResponseWriter r)"
  using assms fail_response(2) [of "new_ResponseWriter r"]
  by (simp add: Server_passes requireAuthentication_def finishRequest_done new_ResponseWriter_fields)

text \<open>
  C6 (as amended). With \<open>requireAuth\<close> set, a request without parseable Basic
  credentials never gets to the wrapped registry handler: the response of the server
  is the same whatever that handler is. When the server and its \<open>ServeMux\<close> hand the
  request on (request URI other than \<open>*\<close>, path in canonical form, or rooted for
  \<open>CONNECT\<close>), the response is the challenge: status 401, the header
  \<open>WWW-Authenticate: Basic\<close> and no body. Otherwise the server or the \<open>ServeMux\<close>
  answers on its own, with status 200, 301, 400 or 404 and without the challenge
  header.
\<close>

theorem C6_unauthenticated_never_served:
  assumes "RequireAuth (Config reg)" and "BasicAuth r = None"
  shows "(\<forall>h. Server_serve (Serve_handler w reg) r
               = Server_serve (ServeMux_ServeHTTP (servemux_redirect_url w)
                                 (requireAuthentication h)) r)
       \<and> (reaches_handler r \<longrightarrow>
             status (Server_serve (Serve_handler w reg) r) = 401
             \<and> sent_Header (Server_serve (Serve_handler w reg) r)
                  (CanonicalMIMEHeaderKey ''WWW-Authenticate'') = Some [''Basic'']
             \<and> body (Server_serve (Serve_handler w reg) r) = [])
       \<and> (\<not> reaches_handler r \<longrightarrow>
             status (Server_serve (Serve_handler w reg) r) \<in> {200, 301, 400, 404}
             \<and> sent_Header (Server_serve (Serve_handler w reg) r)
                  (CanonicalMIMEHeaderKey ''WWW-Authenticate'') = None)"
proof (cases "reaches_handler r")
  case True
  note c = Server_challenge [OF assms(2) True]
  have n: "\<not> wroteHeader (new_ResponseWriter r)"
    by (simp add: new_ResponseWriter_fields)
  from True c fail_response [OF n] show ?thesis
    by (simp add: Serve_handler_auth [OF assms(1)] canon_www new_ResponseWriter_fields
        header_values_def)
next
  case False
  from False Server_own_answer [OF False] show ?thesis
    by (simp add: Serve_handler_auth [OF assms(1)] canon_www)
qed

lemma clean_v2: "cleanPath ''/v2/'' = ''/v2/''"
  by (simp add: cleanPath_def path_eval Let_def)

lemma clean_double_slash: "cleanPath ''//v2/'' = ''/v2/''"
  by (simp add: cleanPath_def path_eval Let_def)

lemma anonymous_reaches: "reaches_handler anonymous_request"
  by (simp add: reaches_handler_def anonymous_request_def http_request_def clean_v2)

lemma donor_requires_auth: "RequireAuth (Config donor_registry)"
  by (simp add: donor_registry_def donor_config_def)

text \<open>
  The anonymous request \<open>GET /v2/\<close> on a registry that requires authentication.
\<close>

theorem C6_unauthenticated_never_served_witness:
  "RequireAuth (Config donor_registry) \<and> BasicAuth anonymous_request = None
   \<and> reaches_handler anonymous_request
   \<and> status (Server_serve (Serve_handler quiet_world donor_registry) anonymous_request) = 401
   \<and> body (Server_serve (Serve_handler quiet_world donor_registry) anonymous_request) = []"
proof -
  have a: "BasicAuth anonymous_request = None"
    by (simp add: anonymous_request_def no_headers_no_auth)
  note t = C6_unauthenticated_never_served [OF donor_requires_auth a, of quiet_world]
  from t [THEN conjunct2, THEN conjunct1] anonymous_reaches
  have "status (Server_serve (Serve_handler quiet_world donor_registry) anonymous_request) = 401
    \<and> body (Server_serve (Serve_handler quiet_world donor_registry) anonymous_request) = []"
    by blast
  with donor_requires_auth a anonymous_reaches show ?thesis
    by blast
qed

lemma quiet_redirect: "servemux_redirect_url quiet_world = plain_url"
  by (simp add: quiet_world_def)

text \<open>
  C6 as stated fails: the request \<open>GET //v2/\<close> carries no credentials, and the server
  of a registry that requires authentication answers it with a redirect to \<open>/v2/\<close>,
  status 301, without the header \<open>WWW-Authenticate\<close>.
\<close>

theorem C6_every_request_401_counterexample:
  "RequireAuth (Config donor_registry)
   \<and> BasicAuth double_slash_request = None
   \<and> status (Server_serve (Serve_handler quiet_world donor_registry) double_slash_request) = 301
   \<and> sent_Header (Server_serve (Serve_handler quiet_world donor_registry) double_slash_request)
        ''Location'' = Some [''/v2/'']
   \<and> sent_Header (Server_serve (Serve_handler quiet_world donor_registry) double_slash_request)
        ''Www-Authenticate'' = None"
proof -
  have a: "BasicAuth double_slash_request = None"
    by (simp add: double_slash_request_def no_headers_no_auth)
  have n: "\<not> wroteHeader (new_ResponseWriter double_slash_request)"
    and e: "rw_Header (new_ResponseWriter double_slash_request) = Map.empty"
    by (simp_all add: new_ResponseWriter_fields)
  have s: "Server_serve (Serve_handler quiet_world donor_registry) double_slash_request
      = http_Redirect ''/v2/'' double_slash_request (new_ResponseWriter double_slash_request)"
    by (simp add: Serve_handler_auth [OF donor_requires_auth] Server_serve_def serverHandler_def
        ServeMux_ServeHTTP_def double_slash_request_def http_request_def clean_double_slash
        quiet_redirect plain_url_def)
      (simp add: finishRequest_done http_Redirect_response(2) new_ResponseWriter_fields)
  from donor_requires_auth a http_Redirect_response [OF n] e show ?thesis
    by (simp add: s)
qed

section \<open>Properties of the router\<close>

lemmas digits_eval = sprint_d_def digits.simps digit_char_def char_of_def bit_Suc_0_iff

lemma sprint_d_2: "sprint_d 2 = ''2''"
  by (simp add: digits_eval)

lemma ParseLength_2: "ParseLength ''2'' = Some 2"
  by (simp add: ParseLength_def decimal_value_def is_digit_def)

lemma handleAPIBase_response:
  assumes "\<not> wroteHeader rw" and "rw_Header rw = Map.empty" and "written rw = 0"
  shows "status (handleAPIBase r rw) = 200"
    and "wroteHeader (handleAPIBase r rw)"
    and "body (handleAPIBase r rw) = (if rw_Method rw = ''HEAD'' then body rw else body rw @ ''{}'')"
    and "sent_Header (handleAPIBase r rw) ''Content-Type'' = Some [''application/json'']"
    and "sent_Header (handleAPIBase r rw) ''Content-Length'' = Some [''2'']"
  using assms
  by (simp_all add: handleAPIBase_def Let_def Write_def WriteHeader_def StatusOK_def emptyJSON_def
      Header_Set_def header_values_def canon_ct canon_cl sprint_d_2 ParseLength_2
      bodyAllowedForStatus_def)

lemma registerHandler_unmatched:
  assumes "cleanPath (Path r) = Path r" and "route_match routes r = None"
  shows "Router_ServeHTTP (registerHandler hs routes) r rw = handleAPIBase r rw"
  using assms by (simp add: Router_ServeHTTP_def registerHandler_def)

lemma envelope_is_error: "is_error_envelope code rw \<Longrightarrow> 400 \<le> status rw"
  by (simp add: is_error_envelope_def)

lemma Serve_routes_match: "route_match (Serve_routes w reg) = distv2_route_match w (Prefix (Config reg))"
  by (simp add: Serve_routes_def registerHandler_def RouterWithPrefix_def)

lemma Serve_unmatched:
  assumes "reaches_routes r" and "distv2_route_match w (Prefix (Config reg)) r = None"
    and "RequireAuth (Config reg) \<longrightarrow> BasicAuth r \<noteq> None"
  shows "Server_serve (Serve_handler w reg) r = handleAPIBase r (new_ResponseWriter r)"
proof -
  have c: "cleanPath (Path r) = Path r"
    using assms(1) by (simp add: reaches_routes_def)
  have m: "route_match (RouterWithPrefix (distv2_route_match w) (router_redirect_url w)
             (Prefix (Config reg))) r = None"
    using assms(2) by (simp add: RouterWithPrefix_def)
  have u: "Router_ServeHTTP (Serve_routes w reg) r (new_ResponseWriter r)
      = handleAPIBase r (new_ResponseWriter r)"
    unfolding Serve_routes_def by (rule registerHandler_unmatched [OF c m])
  have h: "Serve_handler w reg r (new_ResponseWriter r) = handleAPIBase r (new_ResponseWriter r)"
    using assms(3) u
    by (auto simp add: Serve_handler_def Let_def ServeMux_passes
        [OF reaches_routes_handler [OF assms(1)]] requireAuthentication_def split: option.splits)
  have d: "wroteHeader (handleAPIBase r (new_ResponseWriter r))"
    by (rule handleAPIBase_response(2)) (simp_all add: new_ResponseWriter_fields)
  from assms(1) have "RequestURI r \<noteq> ''*''"
    by (simp add: reaches_routes_def)
  with h d show ?thesis
    by (simp add: Server_serve_def serverHandler_def finishRequest_done)
qed

text \<open>
  C3 (as amended). A request that gets to the routes of the router (request URI other
  than \<open>*\<close>, path in canonical form and, when \<open>requireAuth\<close> is set, parseable Basic
  credentials) and matches none of them goes to the \<open>NotFoundHandler\<close>, which
  \<open>registerHandler\<close> sets to \<open>handleAPIBase\<close>: the server answers with status 200,
  content type \<open>application/json\<close>, content length 2 and the body \<open>{}\<close> (no body
  for a \<open>HEAD\<close> request), which is no error envelope.
\<close>

theorem C3_unmatched_gets_empty_json:
  assumes "reaches_routes r"
    and "distv2_route_match w (Prefix (Config reg)) r = None"
    and "RequireAuth (Config reg) \<longrightarrow> BasicAuth r \<noteq> None"
  shows "Server_serve (Serve_handler w reg) r = handleAPIBase r (new_ResponseWriter r)
       \<and> status (Server_serve (Serve_handler w reg) r) = 200
       \<and> sent_Header (Server_serve (Serve_handler w reg) r) ''Content-Type''
            = Some [''application/json'']
       \<and> sent_Header (Server_serve (Serve_handler w reg) r) ''Content-Length'' = Some [''2'']
       \<and> body (Server_serve (Serve_handler w reg) r) = (if Method r = ''HEAD'' then [] else ''{}'')
       \<and> \<not> is_error_envelope ''UNSUPPORTED'' (Server_serve (Serve_handler w reg) r)"
proof -
  note s = Serve_unmatched [OF assms]
  have n: "\<not> wroteHeader (new_ResponseWriter r)" "rw_Header (new_ResponseWriter r) = Map.empty"
    "written (new_ResponseWriter r) = 0"
    by (simp_all add: new_ResponseWriter_fields)
  note a = handleAPIBase_response [OF n, of r]
  have "\<not> is_error_envelope ''UNSUPPORTED'' (handleAPIBase r (new_ResponseWriter r))"
    using envelope_is_error [of "''UNSUPPORTED''" "handleAPIBase r (new_ResponseWriter r)"] a(1)
    by auto
  with a show ?thesis
    by (simp add: s new_ResponseWriter_fields)
qed

lemma clean_healthz: "cleanPath ''/healthz'' = ''/healthz''"
  by (simp add: cleanPath_def path_eval Let_def)

lemma unrouted_reaches: "reaches_routes unrouted_request"
  by (simp add: reaches_routes_def unrouted_request_def http_request_def clean_healthz)

lemma unrouted_no_match:
  "distv2_route_match quiet_world (Prefix (Config open_registry)) unrouted_request = None"
  by (simp add: quiet_world_def open_registry_def donor_registry_def donor_config_def
      unrouted_request_def http_request_def v2_routes_def)

lemma unrouted_head_reaches: "reaches_routes unrouted_head_request"
  by (simp add: reaches_routes_def unrouted_head_request_def http_request_def clean_healthz)

lemma unrouted_head_no_match:
  "distv2_route_match quiet_world (Prefix (Config open_registry)) unrouted_head_request = None"
  by (simp add: quiet_world_def open_registry_def donor_registry_def donor_config_def
      unrouted_head_request_def http_request_def v2_routes_def)

lemma open_registry_no_auth: "\<not> RequireAuth (Config open_registry)"
  by (simp add: open_registry_def donor_config_def)

text \<open>
  The requests \<open>GET /healthz\<close> and \<open>HEAD /healthz\<close>, which match no registry
  route, on a registry without \<open>requireAuth\<close>.
\<close>

theorem C3_unmatched_gets_empty_json_witness:
  "reaches_routes unrouted_request
   \<and> distv2_route_match quiet_world (Prefix (Config open_registry)) unrouted_request = None
   \<and> \<not> RequireAuth (Config open_registry)
   \<and> status (Server_serve (Serve_handler quiet_world open_registry) unrouted_request) = 200
   \<and> body (Server_serve (Serve_handler quiet_world open_registry) unrouted_request) = ''{}''
   \<and> reaches_routes unrouted_head_request
   \<and> distv2_route_match quiet_world (Prefix (Config open_registry)) unrouted_head_request = None
   \<and> status (Server_serve (Serve_handler quiet_world open_registry) unrouted_head_request) = 200
   \<and> body (Server_serve (Serve_handler quiet_world open_registry) unrouted_head_request) = []"
proof -
  from open_registry_no_auth
  have h: "RequireAuth (Config open_registry) \<longrightarrow> BasicAuth unrouted_request \<noteq> None"
    and h': "RequireAuth (Config open_registry) \<longrightarrow> BasicAuth unrouted_head_request \<noteq> None"
    by simp_all
  note t = C3_unmatched_gets_empty_json [OF unrouted_reaches unrouted_no_match h]
  note t' = C3_unmatched_gets_empty_json [OF unrouted_head_reaches unrouted_head_no_match h']
  have m: "Method unrouted_request \<noteq> ''HEAD''"
    by (simp add: unrouted_request_def http_request_def)
  have m': "Method unrouted_head_request = ''HEAD''"
    by (simp add: unrouted_head_request_def http_request_def)
  from t m
  have g: "status (Server_serve (Serve_handler quiet_world open_registry) unrouted_request) = 200
    \<and> body (Server_serve (Serve_handler quiet_world open_registry) unrouted_request) = ''{}''"
    by auto
  from t' m'
  have g': "status (Server_serve (Serve_handler quiet_world open_registry) unrouted_head_request) = 200
    \<and> body (Server_serve (Serve_handler quiet_world open_registry) unrouted_head_request) = []"
    by auto
  from unrouted_reaches unrouted_no_match open_registry_no_auth g
    unrouted_head_reaches unrouted_head_no_match g'
  show ?thesis
    by blast
qed

text \<open>
  C3 as stated fails: \<open>GET /healthz\<close> matches no route and is answered with the
  success response \<open>200 {}\<close>, not with an \<open>UNSUPPORTED\<close> error envelope.
\<close>

theorem C3_unsupported_envelope_counterexample:
  "distv2_route_match quiet_world (Prefix (Config open_registry)) unrouted_request = None
   \<and> status (Server_serve (Serve_handler quiet_world open_registry) unrouted_request) = 200
   \<and> body (Server_serve (Serve_handler quiet_world open_registry) unrouted_request) = ''{}''
   \<and> \<not> is_error_envelope ''UNSUPPORTED''
         (Server_serve (Serve_handler quiet_world open_registry) unrouted_request)"
proof -
  from open_registry_no_auth
  have h: "RequireAuth (Config open_registry) \<longrightarrow> BasicAuth unrouted_request \<noteq> None"
    by simp
  note s = Serve_unmatched [OF unrouted_reaches unrouted_no_match h]
  have n: "\<not> wroteHeader (new_ResponseWriter unrouted_request)"
    "rw_Header (new_ResponseWriter unrouted_request) = Map.empty"
    "written (new_ResponseWriter unrouted_request) = 0"
    by (simp_all add: new_ResponseWriter_fields)
  note a = handleAPIBase_response [OF n, of unrouted_request]
  have m: "rw_Method (new_ResponseWriter unrouted_request) \<noteq> ''HEAD''"
    by (simp add: new_ResponseWriter_def unrouted_request_def http_request_def)
  have b: "body (new_ResponseWriter unrouted_request) = []"
    by (simp add: new_ResponseWriter_fields)
  have e: "\<not> is_error_envelope ''UNSUPPORTED''
      (handleAPIBase unrouted_request (new_ResponseWriter unrouted_request))"
    using envelope_is_error [of "''UNSUPPORTED''"
        "handleAPIBase unrouted_request (new_ResponseWriter unrouted_request)"] a(1)
    by auto
  from unrouted_no_match a(1) a(3) m b e show ?thesis
    by (simp add: s)
qed

section \<open>Properties of the listener set-up\<close>

lemma ten_seconds: "Timeout (WithTimeout Background (10 * Second)) = Some 10000000000"
  by (simp add: WithTimeout_def Background_def Second_def)

lemma Serve_receive_with_attempt:
  assumes "Enabled (Handover (Config reg))" and "Sockets (Handover (Config reg)) \<noteq> []"
  shows "Serve_receive_with receive reg
           = receive (WithTimeout Background (10 * Second)) (Sockets (Handover (Config reg)))"
  using assms by (simp add: Serve_receive_with_def)

lemma Serve_listener_received:
  "fst (Serve_receive_with receive reg) = Some l \<Longrightarrow> Serve_listener_with receive w reg = Inr l"
  by (cases "Serve_receive_with receive reg") (simp add: Serve_listener_with_def)

lemma Serve_listener_fallback:
  "fst (Serve_receive_with receive reg) = None \<Longrightarrow>
     Serve_listener_with receive w reg = net_Listen w ''tcp'' (Serve_addr reg)"
  by (cases "Serve_receive_with receive reg") (simp add: Serve_listener_with_def)

lemma Serve_start_own_listener:
  assumes "Serve_listener_with receive w reg = Inr (TCPListener fd)"
  shows "\<exists>st. Serve_start_with receive w reg = Inr st \<and> listener st = TCPListener fd"
  using assms
  by (auto simp add: Serve_start_with_def OfferHandover_def Let_def split: sum.splits)

text \<open>
  C5. With handover enabled and a socket directory configured, \<open>Serve\<close> makes one
  attempt to receive a listener, whatever the receiving function is, under a context
  with a timeout of 10 seconds, and serves on the listener the attempt gives. Whenever
  there is no such listener, with or without an error, \<open>Serve\<close> listens on \<open>tcp\<close>
  at \<open>:<port>\<close> itself, and when that succeeds it goes on to serve on this listener
  instead of returning the handover's error. The receiving function of \<open>Serve\<close> is
  \<open>ReceiveHandover\<close>.
\<close>

theorem C5_receive_bounded_then_own_listener:
  assumes "Enabled (Handover (Config reg))"
  shows "(Sockets (Handover (Config reg)) \<noteq> [] \<longrightarrow>
            Serve_receive_with receive reg
              = receive (WithTimeout Background (10 * Second)) (Sockets (Handover (Config reg))))
       \<and> Timeout (WithTimeout Background (10 * Second)) = Some (10 * 1000000000)
       \<and> (\<forall>l. fst (Serve_receive_with receive reg) = Some l \<longrightarrow>
             Serve_listener_with receive w reg = Inr l)
       \<and> (fst (Serve_receive_with receive reg) = None \<longrightarrow>
            Serve_listener_with receive w reg
              = net_Listen w ''tcp'' (CHR '':'' # sprint_d (Port (Config reg))))
       \<and> (\<forall>fd. fst (Serve_receive_with receive reg) = None
              \<and> net_Listen w ''tcp'' (CHR '':'' # sprint_d (Port (Config reg))) = Inr (TCPListener fd)
            \<longrightarrow> (\<exists>st. Serve_start_with receive w reg = Inr st \<and> listener st = TCPListener fd))
       \<and> Serve_receive w reg = Serve_receive_with (ReceiveHandover w) reg
       \<and> Serve_listener w reg = Serve_listener_with (ReceiveHandover w) w reg
       \<and> Serve_start w reg = Serve_start_with (ReceiveHandover w) w reg"
proof (intro conjI impI allI)
  assume "Sockets (Handover (Config reg)) \<noteq> []"
  with assms show "Serve_receive_with receive reg
      = receive (WithTimeout Background (10 * Second)) (Sockets (Handover (Config reg)))"
    by (rule Serve_receive_with_attempt)
next
  show "Timeout (WithTimeout Background (10 * Second)) = Some (10 * 1000000000)"
    by (simp add: ten_seconds)
next
  fix l
  assume "fst (Serve_receive_with receive reg) = Some l"
  then show "Serve_listener_with receive w reg = Inr l"
    by (rule Serve_listener_received)
next
  assume "fst (Serve_receive_with receive reg) = None"
  then show "Serve_listener_with receive w reg
      = net_Listen w ''tcp'' (CHR '':'' # sprint_d (Port (Config reg)))"
    by (simp add: Serve_listener_fallback Serve_addr_def)
next
  fix fd
  assume a: "fst (Serve_receive_with receive reg) = None
      \<and> net_Listen w ''tcp'' (CHR '':'' # sprint_d (Port (Config reg))) = Inr (TCPListener fd)"
  then have "Serve_listener_with receive w reg = Inr (TCPListener fd)"
    by (simp add: Serve_listener_fallback Serve_addr_def)
  then show "\<exists>st. Serve_start_with receive w reg = Inr st \<and> listener st = TCPListener fd"
    by (rule Serve_start_own_listener)
next
  show "Serve_receive w reg = Serve_receive_with (ReceiveHandover w) reg"
    by (simp add: Serve_receive_def)
next
  show "Serve_listener w reg = Serve_listener_with (ReceiveHandover w) w reg"
    by (simp add: Serve_listener_def)
next
  show "Serve_start w reg = Serve_start_with (ReceiveHandover w) w reg"
    by (simp add: Serve_start_def)
qed

lemma donor_handover_cfg:
  "Enabled (Handover (Config donor_registry))"
  "Sockets (Handover (Config donor_registry)) = ''/var/run/handover''"
  "TLS' (Config donor_registry) = None"
  "Port (Config donor_registry) = 5000"
  by (simp_all add: donor_registry_def donor_config_def)

lemma donor_receive_nothing: "Serve_receive quiet_world donor_registry = (None, None)"
  by (simp add: Serve_receive_def Serve_receive_with_def donor_handover_cfg ReceiveHandover_def
      latest_socket_empty quiet_world_def)

lemma sprint_d_5000: "sprint_d 5000 = ''5000''"
  by (simp add: digits_eval)

lemma quiet_fields:
  "net_Listen quiet_world = (\<lambda>_ _. Inr (TCPListener 3))"
  "time_Now_Unix quiet_world = 1700000000"
  "os_Getenv quiet_world = (\<lambda>_. [])"
  "handover_ReceiveHandover quiet_world = (\<lambda>_ _. (Some (TCPListener 7), None))"
  by (simp_all add: quiet_world_def)

text \<open>
  The donor registry on port 5000. With a receiving function that hands over the
  listener 7, it serves on that listener; with one that fails, it binds its own.
\<close>

theorem C5_receive_bounded_then_own_listener_witness:
  "Enabled (Handover (Config donor_registry))
   \<and> Sockets (Handover (Config donor_registry)) \<noteq> []
   \<and> fst (handover_ReceiveHandover quiet_world (WithTimeout Background (10 * Second))
            ''/var/run/handover'') = Some (TCPListener 7)
   \<and> Serve_listener_with (handover_ReceiveHandover quiet_world) quiet_world donor_registry
       = Inr (TCPListener 7)
   \<and> fst (failing_receive (WithTimeout Background (10 * Second)) ''/var/run/handover'') = None
   \<and> net_Listen quiet_world ''tcp'' '':5000'' = Inr (TCPListener 3)
   \<and> Serve_listener_with failing_receive quiet_world donor_registry = Inr (TCPListener 3)
   \<and> (\<exists>st. Serve_start_with failing_receive quiet_world donor_registry = Inr st
          \<and> listener st = TCPListener 3)"
proof -
  note h = donor_handover_cfg(1)
  have s: "Sockets (Handover (Config donor_registry)) \<noteq> []"
    by (simp add: donor_handover_cfg)
  have p: "CHR '':'' # sprint_d (Port (Config donor_registry)) = '':5000''"
    by (simp add: donor_handover_cfg sprint_d_5000)
  have n: "net_Listen quiet_world ''tcp'' '':5000'' = Inr (TCPListener 3)"
    by (simp add: quiet_fields)
  note t = C5_receive_bounded_then_own_listener
    [OF h, of "handover_ReceiveHandover quiet_world" quiet_world, unfolded p donor_handover_cfg(2)]
  note u = C5_receive_bounded_then_own_listener
    [OF h, of failing_receive quiet_world, unfolded p donor_handover_cfg(2)]
  have g: "fst (handover_ReceiveHandover quiet_world (WithTimeout Background (10 * Second))
            ''/var/run/handover'') = Some (TCPListener 7)"
    by (simp add: quiet_fields)
  have f: "fst (failing_receive (WithTimeout Background (10 * Second)) ''/var/run/handover'') = None"
    by (simp add: failing_receive_def)
  from t g have l7: "Serve_listener_with (handover_ReceiveHandover quiet_world) quiet_world
      donor_registry = Inr (TCPListener 7)"
    by simp
  from u f have r: "fst (Serve_receive_with failing_receive donor_registry) = None"
    by simp
  from u r n have l3: "Serve_listener_with failing_receive quiet_world donor_registry
      = Inr (TCPListener 3)"
    by simp
  from u r n have e: "\<exists>st. Serve_start_with failing_receive quiet_world donor_registry = Inr st
      \<and> listener st = TCPListener 3"
    by blast
  from h s g l7 f n l3 e show ?thesis
    by (intro conjI)
qed

section \<open>Properties of the handover offer\<close>

lemma split_path_nonempty: "split_path p \<noteq> []"
  by (induction p) (auto split: list.splits)

lemma split_path_append: "split_path (a @ CHR ''/'' # b) = split_path a @ split_path b"
  by (induction a) (auto split: list.splits simp: split_path_nonempty)

lemma split_path_plain: "CHR ''/'' \<notin> set e \<Longrightarrow> split_path e = [e]"
  by (induction e) auto

lemma clean_elems_snoc:
  "plain_elem e \<Longrightarrow> clean_elems rooted (es @ [e]) = clean_elems rooted es @ [e]"
  by (simp add: clean_elems_def clean_step_def plain_elem_def)

lemma join_elems_snoc:
  "join_elems (es @ [e]) = (if es = [] then e else join_elems es @ CHR ''/'' # e)"
  by (induction es rule: join_elems.induct) auto

lemma is_rooted_append: "a \<noteq> [] \<Longrightarrow> is_rooted (a @ b) = is_rooted a"
  by (cases a) (simp_all add: is_rooted_def)

lemma filepath_Join_plain:
  assumes "plain_elem e"
  shows "filepath_Join loc e =
     (if loc = [] then e
      else (if is_rooted loc then ''/'' else [])
           @ join_elems (clean_elems (is_rooted loc) (split_path loc) @ [e]))"
proof (cases "loc = []")
  case True
  with assms show ?thesis
    by (auto simp add: filepath_Join_def filepath_Clean_def split_path_plain plain_elem_def
        clean_elems_def clean_step_def is_rooted_def Let_def split: list.splits)
next
  case False
  with assms show ?thesis
    by (simp add: filepath_Join_def filepath_Clean_def split_path_append split_path_plain
        plain_elem_def [of e] clean_elems_snoc [OF assms] is_rooted_append Let_def)
qed

lemma join_elems_snoc_nonempty: "e \<noteq> [] \<Longrightarrow> join_elems (es @ [e]) \<noteq> []"
  by (simp add: join_elems_snoc)

lemma filepath_Join_plain_nonempty: "plain_elem e \<Longrightarrow> filepath_Join loc e \<noteq> []"
  by (simp add: filepath_Join_plain join_elems_snoc_nonempty plain_elem_def)

lemma of_char_digit_char: "d < 10 \<Longrightarrow> (of_char (digit_char d) :: nat) = 48 + d"
  by (simp add: digit_char_def)

lemma digit_char_is_digit: "d < 10 \<Longrightarrow> is_digit (digit_char d)"
  by (simp add: is_digit_def of_char_digit_char)

lemma digits_all_digits: "list_all is_digit (digits n)"
proof (induction n rule: digits.induct)
  case (1 n)
  show ?case
  proof (cases "n < 10")
    case True
    then show ?thesis
      by (subst digits.simps) (simp add: digit_char_is_digit)
  next
    case False
    with 1 show ?thesis
      by (subst digits.simps) (simp add: digit_char_is_digit)
  qed
qed

lemma is_digit_not_slash: "is_digit c \<Longrightarrow> c \<noteq> CHR ''/''"
  by (auto simp add: is_digit_def)

lemma digits_no_slash: "CHR ''/'' \<notin> set (digits n)"
  using digits_all_digits [of n] is_digit_not_slash
  by (auto simp add: list_all_iff)

lemma sprint_d_no_slash: "CHR ''/'' \<notin> set (sprint_d i)"
  by (simp add: sprint_d_def digits_no_slash)

lemma socket_name_plain: "plain_elem (''rf-handover-'' @ sprint_d i @ ''.sock'')"
  by (simp add: plain_elem_def sprint_d_no_slash)

lemma decimal_value_snoc:
  "decimal_value (ds @ [c]) = 10 * decimal_value ds + ((of_char c :: nat) - 48)"
  by (simp add: decimal_value_def)

lemma decimal_value_digits: "decimal_value (digits n) = n"
proof (induction n rule: digits.induct)
  case (1 n)
  show ?case
  proof (cases "n < 10")
    case True
    then show ?thesis
      by (subst digits.simps) (simp add: decimal_value_def of_char_digit_char)
  next
    case False
    with 1 have "decimal_value (digits (n div 10)) = n div 10"
      by simp
    with False show ?thesis
      by (subst digits.simps) (simp add: decimal_value_snoc of_char_digit_char)
  qed
qed

lemma Serve_start_offer:
  assumes "Enabled (Handover (Config reg))" and "Serve_start w reg = Inr st"
  shows "hoc st = Some \<lparr>socketFN = filepath_Join (Sockets (Handover (Config reg)))
                          (''rf-handover-'' @ sprint_d (time_Now_Unix w) @ ''.sock''),
                       tcpL = listener st\<rparr>"
  using assms
    filepath_Join_plain_nonempty [OF socket_name_plain,
      of "Sockets (Handover (Config reg))" "time_Now_Unix w"]
  by (auto simp add: Serve_start_def Serve_start_with_def OfferHandover_def Let_def
      split: sum.splits Listener.splits)

text \<open>
  C9. Offering a TCP listener starts the offer on the socket file
  \<open>filepath.Join(loc, "rf-handover-<now>.sock")\<close>, where \<open>now\<close> is the Unix time
  of the call: the cleaned elements of the sockets directory followed by the file name
  (the bare file name when no directory is configured). From 1970 on, the part between
  \<open>rf-handover-\<close> and \<open>.sock\<close> consists of decimal digits, and they read back as
  that time. Every \<open>Serve\<close> with handover enabled that gets to serve has started
  this offer for its listener in its configured sockets directory.
\<close>

theorem C9_handover_socket_name:
  "OfferHandover w loc (TCPListener fd)
     = Inr (Some \<lparr>socketFN = filepath_Join loc (''rf-handover-'' @ sprint_d (time_Now_Unix w) @ ''.sock''),
                   tcpL = TCPListener fd\<rparr>)
   \<and> filepath_Join loc (''rf-handover-'' @ sprint_d (time_Now_Unix w) @ ''.sock'')
       = (if loc = [] then ''rf-handover-'' @ sprint_d (time_Now_Unix w) @ ''.sock''
          else (if is_rooted loc then ''/'' else [])
               @ join_elems (clean_elems (is_rooted loc) (split_path loc)
                              @ [''rf-handover-'' @ sprint_d (time_Now_Unix w) @ ''.sock'']))
   \<and> (0 \<le> time_Now_Unix w \<longrightarrow>
         list_all is_digit (sprint_d (time_Now_Unix w))
         \<and> int (decimal_value (sprint_d (time_Now_Unix w))) = time_Now_Unix w)
   \<and> (\<forall>reg st. Enabled (Handover (Config reg)) \<and> Serve_start w reg = Inr st \<longrightarrow>
         hoc st = Some \<lparr>socketFN = filepath_Join (Sockets (Handover (Config reg)))
                                 (''rf-handover-'' @ sprint_d (time_Now_Unix w) @ ''.sock''),
                             tcpL = listener st\<rparr>)"
proof (intro conjI impI allI)
  show "OfferHandover w loc (TCPListener fd)
     = Inr (Some \<lparr>socketFN = filepath_Join loc (''rf-handover-'' @ sprint_d (time_Now_Unix w) @ ''.sock''),
                   tcpL = TCPListener fd\<rparr>)"
    using filepath_Join_plain_nonempty [OF socket_name_plain, of loc "time_Now_Unix w"]
    by (simp add: OfferHandover_def Let_def)
next
  show "filepath_Join loc (''rf-handover-'' @ sprint_d (time_Now_Unix w) @ ''.sock'')
       = (if loc = [] then ''rf-handover-'' @ sprint_d (time_Now_Unix w) @ ''.sock''
          else (if is_rooted loc then ''/'' else [])
               @ join_elems (clean_elems (is_rooted loc) (split_path loc)
                              @ [''rf-handover-'' @ sprint_d (time_Now_Unix w) @ ''.sock'']))"
    by (rule filepath_Join_plain [OF socket_name_plain])
next
  assume "0 \<le> time_Now_Unix w"
  then show "list_all is_digit (sprint_d (time_Now_Unix w))"
    by (simp add: sprint_d_def digits_all_digits)
next
  assume "0 \<le> time_Now_Unix w"
  then show "int (decimal_value (sprint_d (time_Now_Unix w))) = time_Now_Unix w"
    by (simp add: sprint_d_def decimal_value_digits)
next
  fix reg st
  assume "Enabled (Handover (Config reg)) \<and> Serve_start w reg = Inr st"
  then show "hoc st = Some \<lparr>socketFN = filepath_Join (Sockets (Handover (Config reg)))
                                 (''rf-handover-'' @ sprint_d (time_Now_Unix w) @ ''.sock''),
                             tcpL = listener st\<rparr>"
    using Serve_start_offer by blast
qed

lemma sprint_d_now: "sprint_d 1700000000 = ''1700000000''"
  by (simp add: digits_eval)

lemma donor_socket_path:
  "filepath_Join ''/var/run/handover'' ''rf-handover-1700000000.sock''
     = ''/var/run/handover/rf-handover-1700000000.sock''"
  by (simp add: filepath_Join_def filepath_Clean_def is_rooted_def clean_elems_def clean_step_def)

text \<open>The donor at Unix time 1700000000 with the sockets directory \<open>/var/run/handover\<close>.\<close>

theorem C9_handover_socket_name_witness:
  "0 \<le> time_Now_Unix quiet_world
   \<and> OfferHandover quiet_world ''/var/run/handover'' (TCPListener 3)
       = Inr (Some \<lparr>socketFN = ''/var/run/handover/rf-handover-1700000000.sock'',
                     tcpL = TCPListener 3\<rparr>)
   \<and> decimal_value ''1700000000'' = 1700000000"
proof -
  have n: "time_Now_Unix quiet_world = 1700000000"
    by (simp add: quiet_world_def)
  note t = C9_handover_socket_name [of quiet_world "''/var/run/handover''" 3]
  note t1 = t [THEN conjunct1]
  note t3 = t [THEN conjunct2, THEN conjunct2, THEN conjunct1]
  from t1 have o: "OfferHandover quiet_world ''/var/run/handover'' (TCPListener 3)
       = Inr (Some \<lparr>socketFN = ''/var/run/handover/rf-handover-1700000000.sock'',
                     tcpL = TCPListener 3\<rparr>)"
    by (simp only: n sprint_d_now append.simps donor_socket_path)
  from t3 have "int (decimal_value ''1700000000'') = 1700000000"
    by (simp only: n sprint_d_now)
  then have d: "decimal_value ''1700000000'' = 1700000000"
    by linarith
  from n have z: "0 \<le> time_Now_Unix quiet_world"
    by simp
  from z o d show ?thesis
    by (intro conjI)
qed

section \<open>Properties of the construction\<close>

lemma NewRegistry_result:
  assumes "NewRegistry w cfg newResolver = Inr reg"
  shows "Config reg = cfg"
    and "Store' reg = LocalStore
           (if os_Getenv w ''TELEPRESENCE_ROOT'' \<noteq> []
            then filepath_Join (os_Getenv w ''TELEPRESENCE_ROOT'') (Store cfg) else Store cfg)"
    and "spec_providers w cfg = Inr (SpecProvider reg)"
    and "\<exists>layerSources.
           static_layers w newResolver (StaticLayer cfg) [SpecMappedImageSource newResolver]
             = Inr layerSources
           \<and> LayerSource reg = CompositeLayerSource (layerSources @ [ContentLayerSource])"
  using assms
  by (auto simp add: NewRegistry_def Let_def split: option.splits sum.splits)

lemma remote_dial_options_tls:
  assumes "remote_dial_options w rsp = Inr opts" and "TLS rsp = Some t"
    and "os_Getenv w ''TELEPRESENCE_ROOT'' = root" and "root \<noteq> []"
  shows "opts = [WithUnaryInterceptor, WithStreamInterceptor,
                 WithTransportCredentials
                   (X509KeyPair (filepath_Join root (Certificate t)) (filepath_Join root (PrivateKey t)))
                   (fst (os_ReadFile w (filepath_Join root (Authority t))))]"
  using assms
  by (auto simp add: remote_dial_options_def Let_def split: option.splits prod.splits if_splits)

lemma spec_providers_remote:
  assumes "spec_providers w cfg = Inr sp" and "RemoteSpecProvider cfg = Some rsp"
  shows "\<exists>opts. remote_dial_options w rsp = Inr opts
           \<and> sp = Map.empty(ProviderPrefixRemote \<mapsto>
                      CachingProvider 128 [] (RemoteProvider (Addr rsp) opts))"
  using assms
  by (auto simp add: spec_providers_def split: option.splits sum.splits)

lemma Serve_start_tls:
  assumes "Serve_start w reg = Inr st" and "TLS' (Config reg) = Some t"
    and "os_Getenv w ''TELEPRESENCE_ROOT'' = root" and "root \<noteq> []"
  shows "ServeTLS st = Some (filepath_Join root (Certificate' t), filepath_Join root (PrivateKey' t))"
  using assms
  by (auto simp add: Serve_start_def Serve_start_with_def Let_def split: sum.splits if_splits)

text \<open>
  C4 (as amended). With \<open>TELEPRESENCE_ROOT\<close> set, the root is joined in front of the
  blob store path, of the CA, certificate and key paths of the remote spec provider,
  and of the certificate and key paths of the server: the registry's store is opened
  at the joined path, the provider's transport credentials are loaded from the joined
  paths, and \<open>Serve\<close> hands the joined paths to \<open>ServeTLS\<close>.
\<close>

theorem C4_telepresence_root_joined:
  assumes "os_Getenv w ''TELEPRESENCE_ROOT'' = root" and "root \<noteq> []"
    and "NewRegistry w cfg newResolver = Inr reg"
  shows "Store' reg = LocalStore (filepath_Join root (Store cfg))
       \<and> (\<forall>rsp t. RemoteSpecProvider cfg = Some rsp \<and> TLS rsp = Some t \<longrightarrow>
             SpecProvider reg ProviderPrefixRemote
               = Some (CachingProvider 128 []
                   (RemoteProvider (Addr rsp)
                      [WithUnaryInterceptor, WithStreamInterceptor,
                       WithTransportCredentials
                         (X509KeyPair (filepath_Join root (Certificate t))
                                      (filepath_Join root (PrivateKey t)))
                         (fst (os_ReadFile w (filepath_Join root (Authority t))))])))
       \<and> (\<forall>st t. Serve_start w reg = Inr st \<and> TLS' cfg = Some t \<longrightarrow>
             ServeTLS st = Some (filepath_Join root (Certificate' t),
                                 filepath_Join root (PrivateKey' t)))"
proof (intro conjI allI impI)
  show "Store' reg = LocalStore (filepath_Join root (Store cfg))"
    using NewRegistry_result(2) [OF assms(3)] assms(1,2) by simp
next
  fix rsp t
  assume a: "RemoteSpecProvider cfg = Some rsp \<and> TLS rsp = Some t"
  from spec_providers_remote [OF NewRegistry_result(3) [OF assms(3)]] a
  obtain opts where o: "remote_dial_options w rsp = Inr opts"
    and s: "SpecProvider reg = Map.empty(ProviderPrefixRemote \<mapsto>
              CachingProvider 128 [] (RemoteProvider (Addr rsp) opts))"
    by blast
  from remote_dial_options_tls [OF o _ assms(1,2)] a s
  show "SpecProvider reg ProviderPrefixRemote
               = Some (CachingProvider 128 []
                   (RemoteProvider (Addr rsp)
                      [WithUnaryInterceptor, WithStreamInterceptor,
                       WithTransportCredentials
                         (X509KeyPair (filepath_Join root (Certificate t))
                                      (filepath_Join root (PrivateKey t)))
                         (fst (os_ReadFile w (filepath_Join root (Authority t))))]))"
    by simp
next
  fix st t
  assume "Serve_start w reg = Inr st \<and> TLS' cfg = Some t"
  then show "ServeTLS st = Some (filepath_Join root (Certificate' t),
                                 filepath_Join root (PrivateKey' t))"
    using Serve_start_tls [OF _ _ assms(1,2), of reg st t] NewRegistry_result(1) [OF assms(3)]
    by simp
qed

lemma telepresence_root: "os_Getenv telepresence_world ''TELEPRESENCE_ROOT'' = ''/tel''"
  by (simp add: telepresence_world_def getenv_telepresence_def)

lemma telepresence_fields:
  "local_NewStore telepresence_world = (\<lambda>_. None)"
  "newMetrics telepresence_world = None"
  "NewSpecMappedImageSource telepresence_world = None"
  "NewFileLayerSource telepresence_world = (\<lambda>_. None)"
  "NewContentLayerSource telepresence_world = None"
  "os_ReadFile telepresence_world = (\<lambda>_. ([], None))"
  "AppendCertsFromPEM telepresence_world = (\<lambda>_. True)"
  "tls_LoadX509KeyPair telepresence_world = (\<lambda>_ _. None)"
  "NewCachingSpecProvider telepresence_world = (\<lambda>_. None)"
  "net_Listen telepresence_world = (\<lambda>_ _. Inr (TCPListener 3))"
  "time_Now_Unix telepresence_world = 1700000000"
  by (simp_all add: telepresence_world_def quiet_world_def)

lemma file_layer_fields:
  "Store file_layer_config = ''/var/store''"
  "StaticLayer file_layer_config = [\<lparr>Ref = ''/layers/ide.tar.gz'', Type' = ''file''\<rparr>]"
  "RemoteSpecProvider file_layer_config
     = Some \<lparr>Addr = ''ws-manager:8080'',
             TLS = Some \<lparr>Authority = ''/certs/ca.crt'', Certificate = ''/certs/tls.crt'',
                         PrivateKey = ''/certs/tls.key''\<rparr>\<rparr>"
  "TLS' file_layer_config = Some \<lparr>Certificate' = ''/srv/tls.crt'', PrivateKey' = ''/srv/tls.key''\<rparr>"
  by (simp_all add: file_layer_config_def donor_config_def)

lemma file_layer_static:
  "static_layers telepresence_world (ResolverProvider 0) (StaticLayer file_layer_config)
     [SpecMappedImageSource (ResolverProvider 0)]
   = Inr [SpecMappedImageSource (ResolverProvider 0), FileLayerSource ''/layers/ide.tar.gz'']"
  by (simp add: file_layer_fields telepresence_fields)

lemma file_layer_dial:
  "remote_dial_options telepresence_world
     \<lparr>Addr = ''ws-manager:8080'',
      TLS = Some \<lparr>Authority = ''/certs/ca.crt'', Certificate = ''/certs/tls.crt'',
                  PrivateKey = ''/certs/tls.key''\<rparr>\<rparr>
   = Inr [WithUnaryInterceptor, WithStreamInterceptor,
          WithTransportCredentials (X509KeyPair ''/tel/certs/tls.crt'' ''/tel/certs/tls.key'') []]"
  by (simp add: remote_dial_options_def telepresence_root telepresence_fields path_eval)

lemma file_layer_providers:
  "spec_providers telepresence_world file_layer_config = Inr (SpecProvider file_layer_registry)"
  by (simp add: spec_providers_def file_layer_fields file_layer_dial telepresence_fields
      file_layer_registry_def)

lemma file_layer_store: "filepath_Join ''/tel'' ''/var/store'' = ''/tel/var/store''"
  by (simp add: path_eval)

lemma NewRegistry_file_layer:
  "NewRegistry telepresence_world file_layer_config (ResolverProvider 0) = Inr file_layer_registry"
  by (simp add: NewRegistry_def telepresence_root telepresence_fields file_layer_static
      file_layer_providers file_layer_store file_layer_fields(1) Let_def)
    (simp add: file_layer_registry_def)

text \<open>
  The configuration \<open>file_layer_config\<close> under \<open>TELEPRESENCE_ROOT=/tel\<close>: store,
  provider credentials and server certificate are read below \<open>/tel\<close>.
\<close>

theorem C4_telepresence_root_joined_witness:
  "os_Getenv telepresence_world ''TELEPRESENCE_ROOT'' = ''/tel''
   \<and> NewRegistry telepresence_world file_layer_config (ResolverProvider 0) = Inr file_layer_registry
   \<and> Store' file_layer_registry = LocalStore (filepath_Join ''/tel'' ''/var/store'')
   \<and> filepath_Join ''/tel'' ''/var/store'' = ''/tel/var/store''"
proof -
  have n: "''/tel'' \<noteq> []"
    by simp
  note t = C4_telepresence_root_joined [OF telepresence_root n NewRegistry_file_layer]
  from t [THEN conjunct1] have "Store' file_layer_registry = LocalStore (filepath_Join ''/tel'' ''/var/store'')"
    by (simp only: file_layer_fields(1))
  with telepresence_root NewRegistry_file_layer file_layer_store show ?thesis
    by (intro conjI)
qed

text \<open>
  C4 as stated fails on the static layer file refs: under \<open>TELEPRESENCE_ROOT=/tel\<close>
  the file layer \<open>/layers/ide.tar.gz\<close> is sourced from that very path, not from
  \<open>/tel/layers/ide.tar.gz\<close>, while the store path does get the root.
\<close>

theorem C4_static_layer_ref_counterexample:
  "os_Getenv telepresence_world ''TELEPRESENCE_ROOT'' = ''/tel''
   \<and> StaticLayer file_layer_config = [\<lparr>Ref = ''/layers/ide.tar.gz'', Type' = ''file''\<rparr>]
   \<and> NewRegistry telepresence_world file_layer_config (ResolverProvider 0) = Inr file_layer_registry
   \<and> LayerSource file_layer_registry
       = CompositeLayerSource
           [SpecMappedImageSource (ResolverProvider 0),
            FileLayerSource ''/layers/ide.tar.gz'',
            ContentLayerSource]
   \<and> filepath_Join ''/tel'' ''/layers/ide.tar.gz'' = ''/tel/layers/ide.tar.gz''
   \<and> FileLayerSource (filepath_Join ''/tel'' ''/layers/ide.tar.gz'')
       \<noteq> FileLayerSource ''/layers/ide.tar.gz''"
proof -
  have j: "filepath_Join ''/tel'' ''/layers/ide.tar.gz'' = ''/tel/layers/ide.tar.gz''"
    by (simp add: path_eval)
  have l: "LayerSource file_layer_registry
       = CompositeLayerSource
           [SpecMappedImageSource (ResolverProvider 0),
            FileLayerSource ''/layers/ide.tar.gz'',
            ContentLayerSource]"
    by (simp add: file_layer_registry_def)
  have d: "FileLayerSource (filepath_Join ''/tel'' ''/layers/ide.tar.gz'')
       \<noteq> FileLayerSource ''/layers/ide.tar.gz''"
    by (simp add: j)
  from telepresence_root file_layer_fields(2) NewRegistry_file_layer l j d show ?thesis
    by (intro conjI)
qed

section \<open>Properties of the spec provider\<close>

lemma filter_other_names_shorter:
  "map_of entries name = Some spec \<Longrightarrow>
     length (filter (\<lambda>e. fst e \<noteq> name) entries) < length entries"
proof (induction entries)
  case Nil
  then show ?case by simp
next
  case (Cons e entries)
  show ?case
  proof (cases "fst e = name")
    case True
    then show ?thesis by (simp add: less_Suc_eq_le)
  next
    case False
    with Cons show ?thesis by (cases e) simp
  qed
qed

lemma map_of_None_not_cached: "map_of entries name = None \<Longrightarrow> name \<notin> set (map fst entries)"
  by (simp add: map_of_eq_None_iff)

lemma distinct_take_names: "distinct (map fst entries) \<Longrightarrow> distinct (map fst (take n entries))"
  by (simp add: take_map [symmetric] distinct_take)

lemma GetSpec_lru_ok: "lru_ok p \<Longrightarrow> lru_ok (snd (GetSpec rpc p name))"
proof (induction rpc p name rule: GetSpec.induct)
  case (1 rpc addr opts name)
  then show ?case by simp
next
  case (2 rpc space entries delegate name)
  show ?case
  proof (cases "map_of entries name")
    case None
    with 2 have d: "lru_ok (snd (GetSpec rpc delegate name))"
      by simp
    from None have n: "name \<notin> set (map fst entries)"
      by (rule map_of_None_not_cached)
    from 2(2) n have "distinct (map fst (take space ((name, spec) # entries)))" for spec
      by (intro distinct_take_names) simp
    with None d 2(2) show ?thesis
      by (auto split: prod.splits sum.splits)
  next
    case (Some spec)
    from filter_other_names_shorter [OF Some] 2(2)
    have "Suc (length (filter (\<lambda>e. fst e \<noteq> name) entries)) \<le> space"
      by simp
    moreover from 2(2) have "distinct (map fst (filter (\<lambda>e. fst e \<noteq> name) entries))"
      by (simp add: distinct_map_filter)
    ultimately show ?thesis
      using Some 2(2) by auto
  qed
qed

lemma GetSpec_capacity: "capacity (snd (GetSpec rpc p name)) = capacity p"
  by (cases p) (auto split: option.splits prod.splits sum.splits)

lemma GetSpecs_lru_ok: "lru_ok p \<Longrightarrow> lru_ok (GetSpecs rpc p names)"
  by (induction names arbitrary: p) (simp_all add: GetSpec_lru_ok)

lemma GetSpecs_capacity: "capacity (GetSpecs rpc p names) = capacity p"
  by (induction names arbitrary: p) (simp_all add: GetSpec_capacity)

lemma lru_bounded:
  assumes "lru_ok p" and "capacity p = Some space"
  shows "length (cached_names p) \<le> space \<and> distinct (cached_names p)"
  using assms by (cases p) simp_all

lemma fresh_cache_hit:
  assumes "GetSpec rpc (CachingProvider (Suc n) [] delegate) name = (Inr spec, p)"
  shows "fst (GetSpec rpc' p name) = Inr spec"
  using assms by (auto split: prod.splits sum.splits)

text \<open>
  C10. When a remote spec provider is configured and \<open>NewRegistry\<close> succeeds, the
  only provider registered is the one under the remote prefix: an empty cache of
  capacity 128 in front of the remote provider for the configured address. Whatever
  names are looked up, the cache never holds more than 128 entries and no name twice;
  and once a name has been resolved, the next lookup of that name is answered with the
  same ImageSpec whatever the remote side would say.
\<close>

theorem C10_remote_provider_cached:
  assumes "NewRegistry w cfg newResolver = Inr reg" and "RemoteSpecProvider cfg = Some rsp"
  shows "\<exists>opts. remote_dial_options w rsp = Inr opts
           \<and> SpecProvider reg ProviderPrefixRemote
               = Some (CachingProvider 128 [] (RemoteProvider (Addr rsp) opts))
           \<and> dom (SpecProvider reg) = {ProviderPrefixRemote}
           \<and> (\<forall>rpc names.
                 length (cached_names
                   (GetSpecs rpc (CachingProvider 128 [] (RemoteProvider (Addr rsp) opts)) names))
                   \<le> 128
                 \<and> distinct (cached_names
                   (GetSpecs rpc (CachingProvider 128 [] (RemoteProvider (Addr rsp) opts)) names)))
           \<and> (\<forall>rpc rpc' name spec p.
                 GetSpec rpc (CachingProvider 128 [] (RemoteProvider (Addr rsp) opts)) name
                   = (Inr spec, p)
                 \<longrightarrow> fst (GetSpec rpc' p name) = Inr spec)"
proof -
  from spec_providers_remote [OF NewRegistry_result(3) [OF assms(1)] assms(2)]
  obtain opts where o: "remote_dial_options w rsp = Inr opts"
    and s: "SpecProvider reg = Map.empty(ProviderPrefixRemote \<mapsto>
              CachingProvider 128 [] (RemoteProvider (Addr rsp) opts))"
    by blast
  let ?p = "CachingProvider 128 [] (RemoteProvider (Addr rsp) opts)"
  have b: "length (cached_names (GetSpecs rpc ?p names)) \<le> 128
           \<and> distinct (cached_names (GetSpecs rpc ?p names))" for rpc names
    by (rule lru_bounded) (simp_all add: GetSpecs_lru_ok GetSpecs_capacity)
  have h: "fst (GetSpec rpc' p name) = Inr spec"
    if "GetSpec rpc ?p name = (Inr spec, p)" for rpc rpc' name spec p
    using fresh_cache_hit [of rpc 127 "RemoteProvider (Addr rsp) opts" name spec p rpc'] that
    by simp
  from o s b h show ?thesis
    by (intro exI [of _ opts]) (simp add: h)
qed

text \<open>
  The registry of \<open>file_layer_config\<close>, whose remote spec provider is
  \<open>ws-manager:8080\<close>.
\<close>

theorem C10_remote_provider_cached_witness:
  "NewRegistry telepresence_world file_layer_config (ResolverProvider 0) = Inr file_layer_registry
   \<and> (\<exists>opts. SpecProvider file_layer_registry ProviderPrefixRemote
         = Some (CachingProvider 128 [] (RemoteProvider ''ws-manager:8080'' opts)))"
proof -
  from C10_remote_provider_cached [OF NewRegistry_file_layer file_layer_fields(3)]
  have "\<exists>opts. SpecProvider file_layer_registry ProviderPrefixRemote
         = Some (CachingProvider 128 [] (RemoteProvider ''ws-manager:8080'' opts))"
    by auto
  with NewRegistry_file_layer show ?thesis
    by (intro conjI)
qed

section \<open>Properties of the select\<close>

lemma step_OfferFails:
  "step (OfferFails err) s = Some s' \<Longrightarrow> offer s = Offering \<and> s' = s\<lparr>offer := OfferFailed\<rparr>"
  by (auto split: if_splits)

lemma step_OfferSucceeds:
  "step OfferSucceeds s = Some s' \<Longrightarrow> offer s = Offering \<and> s' = s\<lparr>offer := SendingTrue\<rparr>"
  by (auto split: if_splits)

lemma step_ServerFails:
  "step (ServerFails err) s = Some s' \<Longrightarrow> main s' = main s \<and> offer s' = offer s"
  by (auto split: if_splits)

lemma step_RecvSrvErr:
  "step RecvSrvErr s = Some s' \<Longrightarrow> main s = AtSelect \<and> offer s' = offer s \<and> (\<exists>err. main s' = Returned (Some err))"
  by (auto split: if_splits option.splits)

lemma step_RecvHoc:
  "step RecvHoc s = Some s' \<Longrightarrow>
     (main s = AtSelect \<and> offer s = SendingTrue \<and> main s' = AwaitClose
        \<and> offer s' = (if shutdowner s then ShuttingDown else NoShutdowner))
     \<or> ((main s = AtSelect \<or> main s = AwaitClose) \<and> hoc_closed s \<and> s' = s\<lparr>main := Returned None\<rparr>)"
  by (auto split: if_splits)

lemma step_ShutdownStarts:
  "step ShutdownStarts s = Some s' \<Longrightarrow> offer s = ShuttingDown \<and> offer s' = Draining \<and> main s' = main s"
  by (auto split: if_splits)

lemma step_ShutdownReturns:
  "step (ShutdownReturns err) s = Some s' \<Longrightarrow> offer s = Draining \<and> s' = s\<lparr>offer := ShutdownDone\<rparr>"
  by (auto split: if_splits)

lemma step_keeps_handed_over_main:
  assumes "step e s = Some s'"
    and "handed_over s \<longrightarrow> main s = AwaitClose \<or> main s = Returned None"
  shows "handed_over s' \<longrightarrow> main s' = AwaitClose \<or> main s' = Returned None"
proof (cases e)
  case (OfferFails err)
  with assms(1) have "\<not> handed_over s'"
    by (auto dest!: step_OfferFails simp add: handed_over_def simp del: step.simps)
  then show ?thesis by simp
next
  case OfferSucceeds
  with assms(1) have "\<not> handed_over s'"
    by (auto dest!: step_OfferSucceeds simp add: handed_over_def simp del: step.simps)
  then show ?thesis by simp
next
  case (ServerFails err)
  with assms(1) have "main s' = main s \<and> offer s' = offer s"
    using step_ServerFails by blast
  with assms(2) show ?thesis
    by (simp add: handed_over_def)
next
  case RecvSrvErr
  with assms(1) have r: "main s = AtSelect \<and> offer s' = offer s"
    using step_RecvSrvErr by blast
  with assms(2) have "\<not> handed_over s"
    by auto
  with r show ?thesis
    by (simp add: handed_over_def)
next
  case RecvHoc
  with assms(1) have "main s' = AwaitClose \<or> main s' = Returned None"
    using step_RecvHoc [of s s'] by (auto simp del: step.simps)
  then show ?thesis by simp
next
  case ShutdownStarts
  with assms(1) have r: "offer s = ShuttingDown \<and> main s' = main s"
    using step_ShutdownStarts by blast
  then have "handed_over s"
    by (simp add: handed_over_def)
  with assms(2) r show ?thesis
    by simp
next
  case (ShutdownReturns err)
  with assms(1) have r: "offer s = Draining \<and> s' = s\<lparr>offer := ShutdownDone\<rparr>"
    using step_ShutdownReturns by blast
  then have "handed_over s"
    by (simp add: handed_over_def)
  with assms(2) r show ?thesis
    by auto
qed

lemma exec_keeps_handed_over_main:
  assumes "exec evs s = Some s'"
    and "handed_over s \<longrightarrow> main s = AwaitClose \<or> main s = Returned None"
  shows "handed_over s' \<longrightarrow> main s' = AwaitClose \<or> main s' = Returned None"
  using assms
proof (induction evs arbitrary: s)
  case Nil
  then show ?case by simp
next
  case (Cons e evs)
  from Cons.prems(1) obtain s1 where s1: "step e s = Some s1" and r: "exec evs s1 = Some s'"
    by (auto split: option.splits)
  from step_keeps_handed_over_main [OF s1 Cons.prems(2)] Cons.IH [OF r] show ?case
    by blast
qed

lemma Serve_select_not_handed_over: "\<not> handed_over (Serve_select st)"
  by (simp add: handed_over_def Serve_select_def split: option.splits)

lemma step_main_after_handover:
  assumes "step e s = Some s'" and "main s = AwaitClose \<or> main s = Returned None"
  shows "main s' = main s \<or> main s' = Returned None"
proof (cases e)
  case (OfferFails err)
  with assms(1) show ?thesis by (auto dest!: step_OfferFails simp del: step.simps)
next
  case OfferSucceeds
  with assms(1) show ?thesis by (auto dest!: step_OfferSucceeds simp del: step.simps)
next
  case (ServerFails err)
  with assms(1) show ?thesis by (auto dest!: step_ServerFails simp del: step.simps)
next
  case RecvSrvErr
  with assms show ?thesis by (auto dest!: step_RecvSrvErr simp del: step.simps)
next
  case RecvHoc
  with assms show ?thesis using step_RecvHoc [of s s'] by (auto simp del: step.simps)
next
  case ShutdownStarts
  with assms(1) show ?thesis by (auto dest!: step_ShutdownStarts simp del: step.simps)
next
  case (ShutdownReturns err)
  with assms(1) show ?thesis by (auto dest!: step_ShutdownReturns simp del: step.simps)
qed

text \<open>
  C8. \<open>Serve\<close> without TLS, from its entry into the \<open>select\<close>, after any
  sequence of steps. Once the handover has been initiated and \<open>Shutdown\<close> has returned, with an
  error or without, \<open>Serve\<close> has returned \<open>nil\<close>, or it waits for the handover
  channel to close, the channel is closed, and the receive makes it return \<open>nil\<close>;
  no step lets it return anything else. With \<open>nil\<close> from \<open>Serve\<close>, \<open>MustServe\<close>
  returns normally instead of exiting through \<open>Fatal\<close>.
\<close>

theorem C8_completed_handover_returns_nil:
  assumes "ServeTLS st = None"
    and "exec evs (Serve_select st) = Some s" and "offer s = ShutdownDone"
  shows "(main s = Returned None
          \<or> (main s = AwaitClose \<and> step RecvHoc s = Some (s\<lparr>main := Returned None\<rparr>)))
       \<and> (\<forall>e s'. step e s = Some s' \<longrightarrow> main s' = main s \<or> main s' = Returned None)
       \<and> MustServe None = Returns"
proof -
  from assms(3) have h: "handed_over s"
    by (simp add: handed_over_def)
  from exec_keeps_handed_over_main [OF assms(2)] Serve_select_not_handed_over h
  have m: "main s = AwaitClose \<or> main s = Returned None"
    by blast
  from assms(3) have c: "hoc_closed s"
    by (simp add: hoc_closed_def)
  have 1: "main s = Returned None
          \<or> (main s = AwaitClose \<and> step RecvHoc s = Some (s\<lparr>main := Returned None\<rparr>))"
  proof (cases "main s = Returned None")
    case True
    then show ?thesis by simp
  next
    case False
    with m have "main s = AwaitClose"
      by simp
    with c show ?thesis
      by simp
  qed
  from m have 2: "\<forall>e s'. step e s = Some s' \<longrightarrow> main s' = main s \<or> main s' = Returned None"
    using step_main_after_handover by blast
  have 3: "MustServe None = Returns"
    by (simp add: MustServe_def)
  from 1 2 3 show ?thesis
    by (intro conjI)
qed

lemma donor_select:
  "Serve_select donor_started
     = \<lparr>main = AtSelect, offer = Offering, server = Serving, srvErrChan = None, shutdowner = True\<rparr>"
  by (simp add: Serve_select_def donor_started_def)

lemma donor_handover_run:
  "exec [OfferSucceeds, RecvHoc, ShutdownStarts, ShutdownReturns None, RecvHoc]
     (Serve_select donor_started)
   = Some \<lparr>main = Returned None, offer = ShutdownDone, server = Stopped,
            srvErrChan = Some ErrServerClosed, shutdowner = True\<rparr>"
  by (simp add: donor_select hoc_closed_def)

text \<open>
  A complete handover of the donor: the offer succeeds, \<open>Serve\<close> receives \<open>true\<close>,
  the server is shut down, the channel is closed and \<open>Serve\<close> returns \<open>nil\<close>.
\<close>

theorem C8_completed_handover_returns_nil_witness:
  "ServeTLS donor_started = None
   \<and> exec [OfferSucceeds, RecvHoc, ShutdownStarts, ShutdownReturns None, RecvHoc]
     (Serve_select donor_started)
   = Some \<lparr>main = Returned None, offer = ShutdownDone, server = Stopped,
            srvErrChan = Some ErrServerClosed, shutdowner = True\<rparr>
   \<and> MustServe None = Returns"
proof -
  have o: "offer \<lparr>main = Returned None, offer = ShutdownDone, server = Stopped,
            srvErrChan = Some ErrServerClosed, shutdowner = True\<rparr> = ShutdownDone"
    by simp
  have n: "ServeTLS donor_started = None"
    by (simp add: donor_started_def)
  note t = C8_completed_handover_returns_nil [OF n donor_handover_run o]
  note t3 = t [THEN conjunct2, THEN conjunct2]
  from n donor_handover_run t3 show ?thesis
    by (intro conjI)
qed

lemma step_keeps_draining:
  assumes "step e s = Some s'" and "offer s = Draining \<or> offer s = ShutdownDone"
  shows "offer s' = Draining \<or> offer s' = ShutdownDone"
proof (cases e)
  case (OfferFails err)
  with assms show ?thesis by (auto dest!: step_OfferFails simp del: step.simps)
next
  case OfferSucceeds
  with assms show ?thesis by (auto dest!: step_OfferSucceeds simp del: step.simps)
next
  case (ServerFails err)
  with assms show ?thesis by (auto dest!: step_ServerFails simp del: step.simps)
next
  case RecvSrvErr
  with assms show ?thesis by (auto dest!: step_RecvSrvErr simp del: step.simps)
next
  case RecvHoc
  with assms show ?thesis using step_RecvHoc [of s s'] by (auto simp del: step.simps)
next
  case ShutdownStarts
  with assms show ?thesis by (auto dest!: step_ShutdownStarts simp del: step.simps)
next
  case (ShutdownReturns err)
  with assms show ?thesis by (auto dest!: step_ShutdownReturns simp del: step.simps)
qed

lemma exec_keeps_draining:
  assumes "exec evs s = Some s'" and "offer s = Draining \<or> offer s = ShutdownDone"
  shows "offer s' = Draining \<or> offer s' = ShutdownDone"
  using assms
proof (induction evs arbitrary: s)
  case Nil
  then show ?case by simp
next
  case (Cons e evs)
  from Cons.prems(1) obtain s1 where s1: "step e s = Some s1" and r: "exec evs s1 = Some s'"
    by (auto split: option.splits)
  from Cons.IH [OF r step_keeps_draining [OF s1 Cons.prems(2)]] show ?case .
qed

lemma exec_after_ShutdownStarts:
  assumes "exec evs s = Some s'" and "ShutdownStarts \<in> set evs"
  shows "offer s' = Draining \<or> offer s' = ShutdownDone"
  using assms
proof (induction evs arbitrary: s)
  case Nil
  then show ?case by simp
next
  case (Cons e evs)
  from Cons.prems(1) obtain s1 where s1: "step e s = Some s1" and r: "exec evs s1 = Some s'"
    by (auto split: option.splits)
  show ?case
  proof (cases "ShutdownStarts \<in> set evs")
    case True
    from Cons.IH [OF r True] show ?thesis .
  next
    case False
    with Cons.prems(2) have "e = ShutdownStarts"
      by simp
    with s1 have "offer s1 = Draining"
      using step_ShutdownStarts by blast
    then show ?thesis
      using exec_keeps_draining [OF r] by blast
  qed
qed

lemma step_keeps_await_handed_over:
  assumes "step e s = Some s'" and "main s = AwaitClose \<longrightarrow> handed_over s"
  shows "main s' = AwaitClose \<longrightarrow> handed_over s'"
proof (cases e)
  case (OfferFails err)
  with assms show ?thesis
    by (auto dest!: step_OfferFails simp add: handed_over_def simp del: step.simps)
next
  case OfferSucceeds
  with assms show ?thesis
    by (auto dest!: step_OfferSucceeds simp add: handed_over_def simp del: step.simps)
next
  case (ServerFails err)
  with assms(1) have "main s' = main s \<and> offer s' = offer s"
    using step_ServerFails by blast
  with assms(2) show ?thesis
    by (simp add: handed_over_def)
next
  case RecvSrvErr
  with assms(1) have "\<exists>err. main s' = Returned (Some err)"
    using step_RecvSrvErr by blast
  then show ?thesis by auto
next
  case RecvHoc
  with assms(1) have "handed_over s' \<or> main s' = Returned None"
    using step_RecvHoc [of s s']
    by (auto simp add: handed_over_def simp del: step.simps split: if_splits)
  then show ?thesis by auto
next
  case ShutdownStarts
  with assms(1) have "offer s' = Draining"
    using step_ShutdownStarts by blast
  then show ?thesis
    by (simp add: handed_over_def)
next
  case (ShutdownReturns err)
  with assms(1) have "offer s' = ShutdownDone"
    by (auto dest!: step_ShutdownReturns simp del: step.simps)
  then show ?thesis
    by (simp add: handed_over_def)
qed

lemma exec_keeps_await_handed_over:
  assumes "exec evs s = Some s'" and "main s = AwaitClose \<longrightarrow> handed_over s"
  shows "main s' = AwaitClose \<longrightarrow> handed_over s'"
  using assms
proof (induction evs arbitrary: s)
  case Nil
  then show ?case by simp
next
  case (Cons e evs)
  from Cons.prems(1) obtain s1 where s1: "step e s = Some s1" and r: "exec evs s1 = Some s'"
    by (auto split: option.splits)
  from Cons.IH [OF r step_keeps_await_handed_over [OF s1 Cons.prems(2)]] show ?case .
qed

lemma Serve_select_main: "main (Serve_select st) = AtSelect"
  by (simp add: Serve_select_def)

text \<open>
  C2 (as amended). \<open>Serve\<close> without TLS, from its entry into the \<open>select\<close>,
  after any sequence of steps. After a failed offer the donor does not shut its server down, but
  \<open>Serve\<close> does not go on waiting either: it is in the \<open>select\<close>, where the receive
  from the closed handover channel is possible and makes it return \<open>nil\<close>, or it has
  already returned.
\<close>

theorem C2_failed_offer_ends_Serve:
  assumes "ServeTLS st = None"
    and "exec evs (Serve_select st) = Some s" and "offer s = OfferFailed"
  shows "ShutdownStarts \<notin> set evs
       \<and> (main s = AtSelect \<or> (\<exists>r. main s = Returned r))
       \<and> (main s = AtSelect \<longrightarrow> step RecvHoc s = Some (s\<lparr>main := Returned None\<rparr>))"
proof (intro conjI impI)
  show "ShutdownStarts \<notin> set evs"
    using exec_after_ShutdownStarts [OF assms(2)] assms(3) by auto
next
  from exec_keeps_await_handed_over [OF assms(2)] Serve_select_main [of st]
  have "main s = AwaitClose \<longrightarrow> handed_over s"
    by simp
  with assms(3) have "main s \<noteq> AwaitClose"
    by (auto simp add: handed_over_def)
  then show "main s = AtSelect \<or> (\<exists>r. main s = Returned r)"
    by (cases "main s") simp_all
next
  assume "main s = AtSelect"
  with assms(3) show "step RecvHoc s = Some (s\<lparr>main := Returned None\<rparr>)"
    by (simp add: hoc_closed_def)
qed

lemma Serve_start_donor: "Serve_start quiet_world donor_registry = Inr donor_started"
proof -
  have l: "Serve_listener_with (ReceiveHandover quiet_world) quiet_world donor_registry
      = Inr (TCPListener 3)"
    using donor_receive_nothing
    by (simp add: Serve_listener_with_def Serve_receive_def quiet_fields)
  have o: "OfferHandover quiet_world ''/var/run/handover'' (TCPListener 3)
       = Inr (Some \<lparr>socketFN = ''/var/run/handover/rf-handover-1700000000.sock'',
                     tcpL = TCPListener 3\<rparr>)"
    using filepath_Join_plain_nonempty [OF socket_name_plain, of "''/var/run/handover''" 1700000000]
    by (simp add: OfferHandover_def Let_def quiet_fields sprint_d_now donor_socket_path)
  have g: "os_Getenv quiet_world ''REGFAC_NO_TLS_DEBUG'' = []"
    by (simp add: quiet_fields)
  show ?thesis
    by (simp add: Serve_start_def Serve_start_with_def l o donor_handover_cfg g Serve_addr_def
        sprint_d_5000 donor_started_def)
qed

lemma donor_failed_offer_run:
  "exec [OfferFails (Err ''listener handover offer failed''), RecvHoc] (Serve_select donor_started)
   = Some \<lparr>main = Returned None, offer = OfferFailed, server = Serving,
            srvErrChan = None, shutdowner = True\<rparr>"
  by (simp add: donor_select hoc_closed_def)

text \<open>
  The donor's offer fails while \<open>Serve\<close> waits in the \<open>select\<close>: the next receive
  ends \<open>Serve\<close>.
\<close>

theorem C2_failed_offer_ends_Serve_witness:
  "ServeTLS donor_started = None
   \<and> exec [OfferFails (Err ''listener handover offer failed'')] (Serve_select donor_started)
     = Some \<lparr>main = AtSelect, offer = OfferFailed, server = Serving,
              srvErrChan = None, shutdowner = True\<rparr>
   \<and> step RecvHoc \<lparr>main = AtSelect, offer = OfferFailed, server = Serving,
                     srvErrChan = None, shutdowner = True\<rparr>
       = Some \<lparr>main = Returned None, offer = OfferFailed, server = Serving,
                srvErrChan = None, shutdowner = True\<rparr>"
proof -
  have e: "exec [OfferFails (Err ''listener handover offer failed'')] (Serve_select donor_started)
     = Some \<lparr>main = AtSelect, offer = OfferFailed, server = Serving,
              srvErrChan = None, shutdowner = True\<rparr>"
    by (simp add: donor_select)
  have o: "offer \<lparr>main = AtSelect, offer = OfferFailed, server = Serving,
              srvErrChan = None, shutdowner = True\<rparr> = OfferFailed"
    by simp
  have n: "ServeTLS donor_started = None"
    by (simp add: donor_started_def)
  note t = C2_failed_offer_ends_Serve [OF n e o]
  note t3 = t [THEN conjunct2, THEN conjunct2]
  from t3 have "step RecvHoc \<lparr>main = AtSelect, offer = OfferFailed, server = Serving,
                     srvErrChan = None, shutdowner = True\<rparr>
       = Some \<lparr>main = Returned None, offer = OfferFailed, server = Serving,
                srvErrChan = None, shutdowner = True\<rparr>"
    by simp
  with n e show ?thesis
    by (intro conjI)
qed

text \<open>
  C2 as stated fails: the donor registry serves without TLS and waits in the
  \<open>select\<close>; its offer fails, and with the server still serving \<open>Serve\<close>
  receives from the closed channel and returns \<open>nil\<close>, the value it returns after a
  completed handover, so that \<open>MustServe\<close> returns.
\<close>

theorem C2_donor_resumes_counterexample:
  "Serve_start quiet_world donor_registry = Inr donor_started
   \<and> ServeTLS donor_started = None
   \<and> exec [OfferFails (Err ''listener handover offer failed''), RecvHoc]
         (Serve_select donor_started)
       = Some \<lparr>main = Returned None, offer = OfferFailed, server = Serving,
                srvErrChan = None, shutdowner = True\<rparr>
   \<and> MustServe None = Returns"
proof -
  have t: "ServeTLS donor_started = None"
    by (simp add: donor_started_def)
  have m: "MustServe None = Returns"
    by (simp add: MustServe_def)
  from Serve_start_donor t donor_failed_offer_run m show ?thesis
    by (intro conjI)
qed

end
